theory Spec2Isabelle
  imports Main
begin

section \<open>Python values, errors and the state of the machine\<close>

text \<open>
  The exceptions the modelled code can raise. \<open>ValueError\<close> is the failed tuple unpacking
  and the failed \<open>list.index\<close>, \<open>AttributeError\<close> the read of an attribute an
  \<open>argparse\<close> namespace does not have, \<open>TypeError\<close> a call with the wrong number or kind
  of arguments, \<open>OSError\<close> a failed file operation, \<open>CatalogUnavailable\<close> a failed fetch of
  a remote catalogue, \<open>InvalidVersion\<close> a version string the parser rejects and
  \<open>LockError\<close> the low-level failure of the lock.
\<close>

datatype error =
    ValueError | AttributeError | IndexError | TypeError | OSError
  | CatalogUnavailable | InvalidVersion | LockError

text \<open>
  One job of the installer: the handle the call returns and the exit code the installer
  records for it (\<open>installer._exit_codes[job_id]\<close>). The handle is an integer; the code
  only tests it for truth, which for a Python integer is being different from zero.
\<close>

record job =
  job_id :: int
  exit_code :: int

datatype call =
    Create "string list" string
  | Install "string list" string
  | Remove string

text \<open>The entries of \<open>installer.list(prefix)\<close>: dictionaries read at the key \<open>name\<close>.\<close>

record item =
  name :: string
  item_version :: string

text \<open>The dictionary \<open>check_updates\<close> returns, one field per key (\<open>update\<close> is \<open>res_update\<close>).\<close>

record check_result =
  available_versions :: "string list"
  current_version :: string
  latest_version :: string
  previous_version :: string
  found_versions :: "string list"
  res_update :: bool
  installed :: bool
  status :: "(string \<times> string) list"

text \<open>
  The lock artifact on disk, as the process lock of the updater sees it: absent, held by
  the process with the given identifier, or unusable. For an unusable artifact the flag
  says whether it is of the kind the platform's lock uses (a symbolic link, or a
  directory on Windows), which is what the clearing code of \<open>main\<close> tests.
\<close>

datatype lock_artifact = Unlocked | Held nat | Corrupted bool

text \<open>Everything a run does that is visible outside it, in order.\<close>

datatype event =
    Job call job
  | SaveState string "item list" string bool "string list"
  | CreateSentinel string string
  | RemoveSentinel string string
  | Rename string string
  | Rmtree string
  | Print string
  | StdoutJson check_result
  | TryLock
  | ClearLock
  | Unlock

text \<open>
  The state the code works on: the environment directories present on disk (by path),
  the sentinel files present (by package name and version), the lock artifact, and the
  log of what has been done so far.
\<close>

record world =
  dirs :: "string set"
  sentinels :: "(string \<times> string) set"
  lock_file :: lock_artifact
  log :: "event list"

text \<open>
  The functions the sources import from modules that are not part of the sources at
  hand are parameters of the model, under their own names:
  \<^item> \<open>parse_conda_version_spec\<close> returns a tuple, here the list of its components;
  \<^item> \<open>conda_package_versions name channel\<close> and \<open>plugin_versions url\<close> fetch remote
    catalogues and may raise;
  \<^item> \<open>parse_version\<close> yields a value of an ordered type, or raises;
  \<^item> \<open>get_installed_versions\<close> and \<open>get_broken_envs\<close> read the directories and the
    sentinels on disk;
  \<^item> \<open>installer_list\<close> is \<open>CondaInstaller.list\<close>;
  \<^item> \<open>backend\<close> is the package manager behind \<open>CondaInstaller.create\<close>, \<open>install\<close> and
    \<open>remove\<close>: from what has happened so far, the call and the directories on disk it
    gives the job (handle and exit code) and the directories it leaves.
\<close>

record 'v helpers =
  parse_conda_version_spec :: "string \<Rightarrow> string list"
  get_prefix_by_name :: "string \<Rightarrow> string"
  conda_package_versions :: "string \<Rightarrow> string \<Rightarrow> error + string list"
  plugin_versions :: "string \<Rightarrow> error + string list"
  sort_versions :: "string list \<Rightarrow> string list"
  is_stable_version :: "string \<Rightarrow> bool"
  parse_version :: "string \<Rightarrow> error + 'v"
  get_installed_versions :: "string \<Rightarrow> string set \<Rightarrow> (string \<times> string) set \<Rightarrow> (string \<times> string) list"
  get_broken_envs :: "string \<Rightarrow> string set \<Rightarrow> (string \<times> string) set \<Rightarrow> string list"
  installer_list :: "string \<Rightarrow> string set \<Rightarrow> item list"
  backend :: "event list \<Rightarrow> call \<Rightarrow> string set \<Rightarrow> job \<times> string set"

subsection \<open>Python idioms\<close>

text \<open>\<open>a, b = t\<close> and \<open>a, b, c = t\<close>: a tuple of another length raises \<open>ValueError\<close>.\<close>

definition unpack2 :: "'a list \<Rightarrow> error + 'a \<times> 'a" where
  "unpack2 t = (case t of [a, b] \<Rightarrow> Inr (a, b) | _ \<Rightarrow> Inl ValueError)"

definition unpack3 :: "'a list \<Rightarrow> error + 'a \<times> 'a \<times> 'a" where
  "unpack3 t = (case t of [a, b, c] \<Rightarrow> Inr (a, b, c) | _ \<Rightarrow> Inl ValueError)"

text \<open>\<open>xs.index(x)\<close>: the first position of \<open>x\<close>, \<open>ValueError\<close> when there is none.\<close>

fun list_index :: "'a list \<Rightarrow> 'a \<Rightarrow> error + nat" where
  "list_index [] x = Inl ValueError"
| "list_index (y # ys) x =
     (if y = x then Inr 0
      else (case list_index ys x of Inl e \<Rightarrow> Inl e | Inr i \<Rightarrow> Inr (Suc i)))"

text \<open>
  The subscript \<open>xs[i]\<close> of Python: an index from \<open>0\<close> to \<open>len(xs) - 1\<close> reads from the
  front, an index from \<open>-len(xs)\<close> to \<open>-1\<close> reads from the back, any other raises.
\<close>

definition getitem :: "'a list \<Rightarrow> int \<Rightarrow> error + 'a" where
  "getitem xs i =
     (if 0 \<le> i \<and> i < int (length xs) then Inr (xs ! nat i)
      else if i < 0 \<and> 0 \<le> int (length xs) + i then Inr (xs ! nat (int (length xs) + i))
      else Inl IndexError)"

text \<open>Sequencing of fallible computations: the first error ends the computation.\<close>

definition and_then :: "error + 'a \<Rightarrow> ('a \<Rightarrow> error + 'b) \<Rightarrow> error + 'b" where
  "and_then r f = (case r of Inl e \<Rightarrow> Inl e | Inr x \<Rightarrow> f x)"

section \<open>Version resolution: \<open>check_updates\<close>\<close>

text \<open>
  The steps of \<open>check_updates\<close> that only compute, under the names of the variables they
  assign: the sorted and filtered catalogue (\<open>versions\<close>), its last element or the empty
  string (\<open>latest_version\<close>), and the element before the current version
  (\<open>previous_version\<close>).
\<close>

definition versions_of :: "'v helpers \<Rightarrow> bool \<Rightarrow> string list \<Rightarrow> string list" where
  "versions_of h dev fetched =
     (let sorted = sort_versions h fetched
      in if \<not> dev then filter (is_stable_version h) sorted else sorted)"

definition latest_of :: "string list \<Rightarrow> string" where
  "latest_of versions = (if versions \<noteq> [] then last versions else [])"

definition previous_of :: "string list \<Rightarrow> string \<Rightarrow> error + string" where
  "previous_of filtered_version current =
     (if current \<in> set filtered_version
      then and_then (list_index filtered_version current) (\<lambda>index.
             getitem filtered_version (int index - 1))
      else Inr [])"

definition check_updates ::
  "('v::ord) helpers \<Rightarrow> string \<Rightarrow> bool \<Rightarrow> string \<Rightarrow> world \<Rightarrow> error + check_result" where
  "check_updates h package dev channel w =
     and_then (unpack3 (parse_conda_version_spec h package)) (\<lambda>(package_name, current, _).
     and_then (conda_package_versions h package_name channel) (\<lambda>fetched.
       let versions = versions_of h dev fetched;
           latest = latest_of versions;
           installed_versions_builds = get_installed_versions h package_name (dirs w) (sentinels w);
           installed_versions = map fst installed_versions_builds
       in
     and_then (parse_version h latest) (\<lambda>parsed_latest.
     and_then (parse_version h current) (\<lambda>parsed_current.
       let upd = (parsed_latest > parsed_current)
       in
     and_then (previous_of versions current) (\<lambda>previous.
       Inr \<lparr>available_versions = versions,
            current_version = current,
            latest_version = latest,
            previous_version = previous,
            found_versions = installed_versions,
            res_update = upd,
            installed = (latest \<in> set installed_versions),
            status = []\<rparr>)))))"

section \<open>Operations on the state\<close>

text \<open>
  A stateful, fallible operation takes the state and returns its result (or the exception
  it raised) with the state it left. An exception keeps what was done before it.
\<close>

type_synonym 'a action = "world \<Rightarrow> (error + 'a) \<times> world"

definition returns :: "'a \<Rightarrow> 'a action" where
  "returns x w = (Inr x, w)"

definition lift :: "error + 'a \<Rightarrow> 'a action" where
  "lift r w = (r, w)"

definition reads :: "(world \<Rightarrow> error + 'a) \<Rightarrow> 'a action" where
  "reads f w = (f w, w)"

definition seq :: "'a action \<Rightarrow> ('a \<Rightarrow> 'b action) \<Rightarrow> 'b action" where
  "seq f g w = (case f w of (Inl e, w') \<Rightarrow> (Inl e, w') | (Inr x, w') \<Rightarrow> g x w')"

definition emit :: "event \<Rightarrow> unit action" where
  "emit e w = (Inr (), w\<lparr>log := log w @ [e]\<rparr>)"

text \<open>\<open>os.path.isdir\<close>, \<open>os.rename\<close> and \<open>shutil.rmtree\<close> on the environment directories.
  Renaming raises when the source is missing or the destination exists (an environment
  left at the destination is a non-empty directory); deleting raises when the directory
  is missing.\<close>

definition isdir :: "string \<Rightarrow> bool action" where
  "isdir path w = (Inr (path \<in> dirs w), w)"

definition os_rename :: "string \<Rightarrow> string \<Rightarrow> unit action" where
  "os_rename src dst w =
     (if src \<in> dirs w \<and> dst \<notin> dirs w
      then (Inr (), w\<lparr>dirs := insert dst (dirs w - {src}), log := log w @ [Rename src dst]\<rparr>)
      else (Inl OSError, w\<lparr>log := log w @ [Rename src dst]\<rparr>))"

definition rmtree :: "string \<Rightarrow> unit action" where
  "rmtree path w =
     (if path \<in> dirs w
      then (Inr (), w\<lparr>dirs := dirs w - {path}, log := log w @ [Rmtree path]\<rparr>)
      else (Inl OSError, w\<lparr>log := log w @ [Rmtree path]\<rparr>))"

text \<open>
  Modelled from the spec: the sentinel store (\<open>create_sentinel_file\<close>,
  \<open>remove_sentinel_file\<close>) and \<open>save_state_file\<close> of the module \<open>utils.io\<close>, which is not
  part of the sources at hand. A sentinel is a durable marker per package and version;
  saving the state persists the snapshot and changes nothing else.
\<close>

definition create_sentinel_file :: "string \<Rightarrow> string \<Rightarrow> unit action" where
  "create_sentinel_file package_name ver w =
     (Inr (), w\<lparr>sentinels := insert (package_name, ver) (sentinels w),
                log := log w @ [CreateSentinel package_name ver]\<rparr>)"

definition remove_sentinel_file :: "string \<Rightarrow> string \<Rightarrow> unit action" where
  "remove_sentinel_file package_name ver w =
     (Inr (), w\<lparr>sentinels := sentinels w - {(package_name, ver)},
                log := log w @ [RemoveSentinel package_name ver]\<rparr>)"

definition save_state_file ::
  "string \<Rightarrow> item list \<Rightarrow> string \<Rightarrow> bool \<Rightarrow> string list \<Rightarrow> unit action" where
  "save_state_file package_name packages channel dev plugins =
     emit (SaveState package_name packages channel dev plugins)"

text \<open>
  Modelled from the spec: the installer adapter \<open>CondaInstaller\<close>, which is not part of the
  sources at hand. Each call is one job of the backend; it returns once the job is done,
  and the exit code read through the job's handle is the exit code of that job.
\<close>

definition installer_run :: "'v helpers \<Rightarrow> call \<Rightarrow> job action" where
  "installer_run h c w =
     (case backend h (log w) c (dirs w) of
        (j, d) \<Rightarrow> (Inr j, w\<lparr>dirs := d, log := log w @ [Job c j]\<rparr>))"

definition installer_create :: "'v helpers \<Rightarrow> string list \<Rightarrow> string \<Rightarrow> job action" where
  "installer_create h packages prefix = installer_run h (Create packages prefix)"

definition installer_install :: "'v helpers \<Rightarrow> string list \<Rightarrow> string \<Rightarrow> job action" where
  "installer_install h packages prefix = installer_run h (Install packages prefix)"

definition installer_remove :: "'v helpers \<Rightarrow> string \<Rightarrow> job action" where
  "installer_remove h prefix = installer_run h (Remove prefix)"

section \<open>The actions\<close>

subsection \<open>\<open>update\<close> and its two install strategies\<close>

text \<open>\<open>get_prefix_by_name(f"{package_name}-{version}")\<close>, the prefix of an environment.\<close>

definition prefix_for :: "'v helpers \<Rightarrow> string \<Rightarrow> string \<Rightarrow> string" where
  "prefix_for h package_name ver = get_prefix_by_name h (package_name @ ''-'' @ ver)"

text \<open>\<open>f"{package_name}={version}=*{build_string}*"\<close>, the pinned spec of the package.\<close>

definition pinned_spec :: "string \<Rightarrow> string \<Rightarrow> string \<Rightarrow> string" where
  "pinned_spec package_name ver build_string =
     package_name @ ''='' @ ver @ ''=*'' @ build_string @ ''*''"

definition create_with_plugins ::
  "'v helpers \<Rightarrow> string \<Rightarrow> string \<Rightarrow> string \<Rightarrow> string list \<Rightarrow> string \<Rightarrow> int action" where
  "create_with_plugins h package_name ver build_string plugins channel =
     (let spec = pinned_spec package_name ver build_string;
          prefix = prefix_for h package_name ver;
          packages = [spec] @ plugins
      in seq (installer_create h packages prefix) (\<lambda>j. returns (exit_code j)))"

text \<open>The loop \<open>for plugin in plugins: installer.install([plugin], prefix)\<close>: the jobs'
  handles and exit codes are dropped.\<close>

fun install_each :: "'v helpers \<Rightarrow> string list \<Rightarrow> string \<Rightarrow> unit action" where
  "install_each h [] prefix w = (Inr (), w)"
| "install_each h (plugin # rest) prefix w =
     (case installer_install h [plugin] prefix w of
        (Inl e, w') \<Rightarrow> (Inl e, w')
      | (Inr _, w') \<Rightarrow> install_each h rest prefix w')"

definition create_with_plugins_one_by_one ::
  "'v helpers \<Rightarrow> string \<Rightarrow> string \<Rightarrow> string \<Rightarrow> string list \<Rightarrow> string \<Rightarrow> int action" where
  "create_with_plugins_one_by_one h package_name ver build_string plugins channel =
     (let spec = pinned_spec package_name ver build_string;
          prefix = prefix_for h package_name ver
      in seq (installer_create h [spec] prefix) (\<lambda>j.
         seq (install_each h plugins prefix) (\<lambda>_.
         returns (exit_code j))))"

text \<open>
  Two steps of \<open>update\<close> that only compute: the plugin catalogue, fetched only when
  \<open>plugins_url\<close> is given and not empty, and the loop that keeps the names of the installed
  packages found in it.
\<close>

definition available_plugins_of :: "'v helpers \<Rightarrow> string option \<Rightarrow> error + string list" where
  "available_plugins_of h plugins_url =
     (case plugins_url of
        None \<Rightarrow> Inr []
      | Some url \<Rightarrow> if url \<noteq> [] then plugin_versions h url else Inr [])"

definition filtered_packages_of :: "string list \<Rightarrow> item list \<Rightarrow> string list" where
  "filtered_packages_of available_plugins packages =
     map name (filter (\<lambda>i. name i \<in> set available_plugins) packages)"

text \<open>\<open>update\<close> has no \<open>return\<close> statement: its value is \<open>None\<close>, here the unit. Its
  parameter \<open>plugins\<close> is never read.\<close>

definition update ::
  "('v::ord) helpers \<Rightarrow> string \<Rightarrow> bool \<Rightarrow> string \<Rightarrow> string list option \<Rightarrow> string option
     \<Rightarrow> unit action" where
  "update h package dev channel plugins plugins_url =
     seq (lift (unpack3 (parse_conda_version_spec h package))) (\<lambda>(package_name, current, build_string).
     seq (reads (check_updates h package dev channel)) (\<lambda>data.
     let latest = latest_version data in
     seq (lift (available_plugins_of h plugins_url)) (\<lambda>available_plugins.
     let prefix = prefix_for h package_name current in
     seq (reads (\<lambda>w. Inr (installer_list h prefix (dirs w)))) (\<lambda>packages.
     seq (save_state_file package_name packages channel dev available_plugins) (\<lambda>_.
     let filtered_packages = filtered_packages_of available_plugins packages in
     seq (create_with_plugins h package_name latest build_string filtered_packages channel) (\<lambda>return_code.
     seq (if return_code \<noteq> 0
          then create_with_plugins_one_by_one h package_name latest build_string
                 filtered_packages channel
          else returns return_code) (\<lambda>return_code.
     if \<not> (return_code \<noteq> 0) then create_sentinel_file package_name latest
     else returns ())))))))"

subsection \<open>\<open>clean_all\<close> and \<open>check_updates_clean_and_launch\<close>\<close>

text \<open>The first loop of \<open>clean_all\<close>, collecting the prefixes the backend failed to remove;
  the second loop does nothing with them.\<close>

fun remove_each :: "'v helpers \<Rightarrow> string list \<Rightarrow> string list \<Rightarrow> (string list) action" where
  "remove_each h [] failed w = (Inr failed, w)"
| "remove_each h (prefix # rest) failed w =
     (case installer_remove h prefix w of
        (Inl e, w') \<Rightarrow> (Inl e, w')
      | (Inr j, w') \<Rightarrow>
          remove_each h rest (if exit_code j \<noteq> 0 then failed @ [prefix] else failed) w')"

definition clean_all :: "'v helpers \<Rightarrow> string \<Rightarrow> unit action" where
  "clean_all h package =
     seq (lift (unpack2 (parse_conda_version_spec h package))) (\<lambda>(package_name, _).
     seq (reads (\<lambda>w. Inr (get_broken_envs h package_name (dirs w) (sentinels w)))) (\<lambda>broken.
     seq (remove_each h broken []) (\<lambda>failed.
     returns ())))"

text \<open>The loop over \<open>found_versions\<close> of \<open>check_updates_clean_and_launch\<close>.\<close>

fun remove_prior :: "string \<Rightarrow> string list \<Rightarrow> string \<Rightarrow> unit action" where
  "remove_prior package_name [] latest w = (Inr (), w)"
| "remove_prior package_name (ver # rest) latest w =
     (if ver \<noteq> latest
      then (case remove_sentinel_file package_name ver w of
              (Inl e, w') \<Rightarrow> (Inl e, w')
            | (Inr _, w') \<Rightarrow> remove_prior package_name rest latest w')
      else remove_prior package_name rest latest w)"

definition check_updates_clean_and_launch ::
  "('v::ord) helpers \<Rightarrow> string \<Rightarrow> bool \<Rightarrow> string \<Rightarrow> unit action" where
  "check_updates_clean_and_launch h package dev channel =
     seq (lift (unpack2 (parse_conda_version_spec h package))) (\<lambda>(package_name, _).
     seq (reads (check_updates h package_name dev channel)) (\<lambda>res.
     if installed res
     then seq (remove_prior package_name (found_versions res) (latest_version res)) (\<lambda>_.
          clean_all h package_name)
     else returns ()))"

subsection \<open>\<open>remove\<close> and \<open>restore\<close>\<close>

definition remove :: "'v helpers \<Rightarrow> string \<Rightarrow> unit action" where
  "remove h package =
     seq (lift (unpack2 (parse_conda_version_spec h package))) (\<lambda>(package_name, ver).
     let prefix = prefix_for h package_name ver in
     seq (installer_remove h prefix) (\<lambda>j.
     if job_id j \<noteq> 0
     then seq (emit (Print (''removing '' @ prefix))) (\<lambda>_. rmtree prefix)
     else returns ()))"

text \<open>The truth value of \<open>job_id_remove\<close>, which is \<open>None\<close> or a job's handle.\<close>

definition truthy :: "int option \<Rightarrow> bool" where
  "truthy x = (case x of None \<Rightarrow> False | Some i \<Rightarrow> i \<noteq> 0)"

definition restore :: "'v helpers \<Rightarrow> string \<Rightarrow> string \<Rightarrow> int action" where
  "restore h package channel =
     seq (lift (unpack2 (parse_conda_version_spec h package))) (\<lambda>(package_name, current).
     let prefix = prefix_for h package_name current in
     seq (isdir prefix) (\<lambda>present.
     seq (if present then seq (installer_remove h prefix) (\<lambda>j. returns (Some (job_id j)))
          else returns None) (\<lambda>job_id_remove.
     seq (isdir prefix) (\<lambda>still_present.
     seq (if truthy job_id_remove \<and> still_present
          then seq (os_rename prefix (prefix @ ''-broken'')) (\<lambda>_. returns (prefix @ ''-broken''))
          else returns '''') (\<lambda>broken_prefix.
     seq (installer_create h [package] prefix) (\<lambda>job_restore.
     seq (isdir broken_prefix) (\<lambda>broken_present.
     seq (if broken_prefix \<noteq> [] \<and> truthy job_id_remove \<and> broken_present
          then seq (emit (Print (''removing '' @ broken_prefix))) (\<lambda>_. rmtree broken_prefix)
          else returns ()) (\<lambda>_.
     returns (exit_code job_restore)))))))))"

section \<open>The command line of the updater\<close>

subsection \<open>The process lock\<close>

text \<open>
  Modelled from the spec: the class \<open>FilesystemLock\<close> of the module \<open>utils.locking\<close>, which
  is not part of the sources at hand. \<open>lock()\<close> returns true when this call acquired the
  lock and false when a process holds it, without blocking; on an unusable artifact it
  raises. \<open>unlock()\<close> releases the lock. The argument is the identifier of the calling
  process.
\<close>

definition lock :: "nat \<Rightarrow> bool action" where
  "lock pid w =
     (case lock_file w of
        Unlocked \<Rightarrow> (Inr True, w\<lparr>lock_file := Held pid, log := log w @ [TryLock]\<rparr>)
      | Held p \<Rightarrow> (Inr False, w\<lparr>log := log w @ [TryLock]\<rparr>)
      | Corrupted k \<Rightarrow> (Inl LockError, w\<lparr>log := log w @ [TryLock]\<rparr>))"

definition unlock :: "unit action" where
  "unlock w = (Inr (), w\<lparr>lock_file := Unlocked, log := log w @ [Unlock]\<rparr>)"

text \<open>
  The handler of \<open>main\<close> for a failed \<open>lock.lock()\<close>: the artifact is removed when it is a
  symbolic link (a directory on Windows), and every exception of the removal is
  swallowed. A held lock is an artifact of that kind.
\<close>

definition clear_lock_file :: "unit action" where
  "clear_lock_file w =
     (case lock_file w of
        Unlocked \<Rightarrow> (Inr (), w)
      | Held p \<Rightarrow> (Inr (), w\<lparr>lock_file := Unlocked, log := log w @ [ClearLock]\<rparr>)
      | Corrupted k \<Rightarrow>
          (if k then (Inr (), w\<lparr>lock_file := Unlocked, log := log w @ [ClearLock]\<rparr>)
           else (Inr (), w)))"

subsection \<open>Arguments\<close>

text \<open>
  The namespace \<open>argparse\<close> returns: the attributes it has, with their values. Reading an
  attribute it does not have raises \<open>AttributeError\<close>.
\<close>

datatype argval = Str string | Flag bool | Strs "string list"

type_synonym namespace = "(string \<times> argval) list"

definition getattr :: "namespace \<Rightarrow> string \<Rightarrow> error + argval" where
  "getattr args a = (case map_of args a of None \<Rightarrow> Inl AttributeError | Some v \<Rightarrow> Inr v)"

definition as_str :: "argval \<Rightarrow> error + string" where
  "as_str v = (case v of Str s \<Rightarrow> Inr s | _ \<Rightarrow> Inl TypeError)"

definition as_flag :: "argval \<Rightarrow> error + bool" where
  "as_flag v = (case v of Flag b \<Rightarrow> Inr b | _ \<Rightarrow> Inl TypeError)"

text \<open>What the user typed: the subcommand, the package and the options given.\<close>

record cmdline =
  cl_command :: string
  cl_package :: string
  cl_current_version :: "string option"
  cl_channel :: "string option"
  cl_plugins :: "string list option"
  cl_dev :: bool

text \<open>\<open>_create_parser\<close>: the attributes a subparser defines, from its four flags.\<close>

definition create_parser :: "bool \<Rightarrow> bool \<Rightarrow> bool \<Rightarrow> bool \<Rightarrow> string list" where
  "create_parser with_current_version channel plugins dev =
     [''package'']
     @ (if with_current_version then [''current_version''] else [])
     @ (if channel then [''channel''] else [])
     @ (if plugins then [''plugins''] else [])
     @ (if dev then [''dev''] else [])"

text \<open>The subparsers \<open>main\<close> builds, with the flags it passes to \<open>_create_parser\<close>.\<close>

definition subparsers :: "(string \<times> string list) list" where
  "subparsers =
     [(''check-updates'', create_parser False True False True),
      (''update'', create_parser False True True True),
      (''check-launch-clean'', create_parser False True True True),
      (''restore'', create_parser False True False False),
      (''clean'', create_parser False False False False),
      (''clean-lock'', create_parser False False False False)]"

definition DEFAULT_CHANNEL :: string where
  "DEFAULT_CHANNEL = ''conda-forge''"

text \<open>
  \<open>parser.parse_args()\<close>: an unknown or missing subcommand, an option the subparser does
  not define and a missing required option end the program (\<open>SystemExit\<close>); otherwise
  the namespace has \<open>command\<close> and the attributes of the subparser, each with the value
  given or its default.
\<close>

datatype exit = SystemExit

definition parse_args :: "cmdline \<Rightarrow> exit + namespace" where
  "parse_args cl =
     (case map_of subparsers (cl_command cl) of
        None \<Rightarrow> Inl SystemExit
      | Some attrs \<Rightarrow>
          if (cl_current_version cl \<noteq> None) \<noteq> (''current_version'' \<in> set attrs)
             \<or> (cl_channel cl \<noteq> None \<and> ''channel'' \<notin> set attrs)
             \<or> (cl_plugins cl \<noteq> None \<and> ''plugins'' \<notin> set attrs)
             \<or> (cl_dev cl \<and> ''dev'' \<notin> set attrs)
          then Inl SystemExit
          else Inr ([(''command'', Str (cl_command cl)), (''package'', Str (cl_package cl))]
            @ (case cl_current_version cl of None \<Rightarrow> []
               | Some v \<Rightarrow> [(''current_version'', Str v)])
            @ (if ''channel'' \<in> set attrs
               then [(''channel'', Str (case cl_channel cl of None \<Rightarrow> DEFAULT_CHANNEL | Some c \<Rightarrow> c))]
               else [])
            @ (if ''plugins'' \<in> set attrs
               then [(''plugins'', Strs (case cl_plugins cl of None \<Rightarrow> [] | Some ps \<Rightarrow> ps))]
               else [])
            @ (if ''dev'' \<in> set attrs then [(''dev'', Flag (cl_dev cl))] else [])))"

subsection \<open>Dispatch\<close>

text \<open>
  \<open>_execute\<close>. The module imports \<open>check_updates\<close> and \<open>restore\<close> from an \<open>actions\<close> module;
  they are the functions of these names above. The arguments of a call are evaluated
  from left to right, so a missing attribute raises before the call. The call of the
  \<open>update\<close> branch passes four arguments to \<open>check_updates\<close>, which takes three: it raises
  \<open>TypeError\<close>. \<open>time.sleep\<close> is not modelled.
\<close>

definition execute :: "('v::ord) helpers \<Rightarrow> namespace \<Rightarrow> bool option \<Rightarrow> unit action" where
  "execute h args lock_created =
     seq (lift (and_then (getattr args ''command'') as_str)) (\<lambda>command.
     if command = ''check-updates'' then
       seq (lift (and_then (getattr args ''package'') as_str)) (\<lambda>package.
       seq (lift (and_then (getattr args ''dev'') as_flag)) (\<lambda>dev.
       seq (lift (and_then (getattr args ''channel'') as_str)) (\<lambda>channel.
       seq (reads (check_updates h package dev channel)) (\<lambda>res.
       emit (StdoutJson res)))))
     else if lock_created = Some True then
       seq (emit (Print ''RUNNING'')) (\<lambda>_.
       seq (if command = ''update'' then
              seq (lift (getattr args ''package'')) (\<lambda>package.
              seq (lift (getattr args ''current_version'')) (\<lambda>current.
              seq (lift (getattr args ''stable'')) (\<lambda>stable.
              seq (lift (getattr args ''channel'')) (\<lambda>channel.
              lift (Inl TypeError)))))
            else if command = ''restore'' then
              seq (lift (and_then (getattr args ''package'') as_str)) (\<lambda>package.
              seq (lift (and_then (getattr args ''channel'') as_str)) (\<lambda>channel.
              seq (restore h package channel) (\<lambda>res.
              returns ())))
            else returns ()) (\<lambda>_.
       unlock))
     else emit (Print ''ALREADY RUNNING!''))"

text \<open>
  \<open>_handle_excecute\<close>. Its handler calls \<open>json.dumps\<close> on the exception, which raises
  \<open>TypeError\<close> (an exception is not serialisable); the inner handler passes a dictionary
  to \<open>sys.stderr.write\<close>, which raises \<open>TypeError\<close> again, and that one leaves the function.
\<close>

definition handle_excecute :: "('v::ord) helpers \<Rightarrow> namespace \<Rightarrow> bool option \<Rightarrow> unit action" where
  "handle_excecute h args lock_created w =
     (case execute h args lock_created w of
        (Inl e, w') \<Rightarrow> (Inl TypeError, w')
      | (Inr u, w') \<Rightarrow> (Inr u, w'))"

text \<open>
  \<open>main\<close>, for the process \<open>pid\<close>. When the arguments do not parse the program ends
  before it touches anything (the result \<open>None\<close>); otherwise the result is that of
  \<open>_handle_excecute\<close>.
\<close>

definition main :: "('v::ord) helpers \<Rightarrow> nat \<Rightarrow> cmdline \<Rightarrow> world \<Rightarrow> (error + unit) option \<times> world" where
  "main h pid cl w =
     (case parse_args cl of
        Inl SystemExit \<Rightarrow> (None, w)
      | Inr args \<Rightarrow>
          (case lock pid w of
             (Inr lock_created, w1) \<Rightarrow>
               (case handle_excecute h args (Some lock_created) w1 of (r, w2) \<Rightarrow> (Some r, w2))
           | (Inl e, w1) \<Rightarrow>
               (case clear_lock_file w1 of
                  (_, w2) \<Rightarrow>
                    (case handle_excecute h args None w2 of (r, w3) \<Rightarrow> (Some r, w3)))))"

section \<open>Observing a run\<close>

text \<open>The events a run adds to the log, and what they say about the installer's jobs.\<close>

definition events_of :: "'a action \<Rightarrow> world \<Rightarrow> event list" where
  "events_of f w = drop (length (log w)) (log (snd (f w)))"

text \<open>The exit codes of the \<open>create\<close> jobs of a run, in the order of the calls.\<close>

fun create_exit_codes :: "event list \<Rightarrow> int list" where
  "create_exit_codes [] = []"
| "create_exit_codes (Job (Create ps p) j # evs) = exit_code j # create_exit_codes evs"
| "create_exit_codes (e # evs) = create_exit_codes evs"

text \<open>
  The final relevant exit code of an update, in the words of the specification: the exit
  code of the atomic batched create or, when that is not zero, the exit code of the
  fallback's create of the pinned package. A run that never reached a create has none.
\<close>

definition final_exit_code :: "event list \<Rightarrow> int option" where
  "final_exit_code evs =
     (case create_exit_codes evs of
        [] \<Rightarrow> None
      | atomic # rest \<Rightarrow>
          if atomic = 0 then Some atomic
          else (case rest of [] \<Rightarrow> None | pinned # _ \<Rightarrow> Some pinned))"

text \<open>One \<open>install\<close> job per plugin, in the order of the plugins.\<close>

definition install_events :: "string \<Rightarrow> string list \<Rightarrow> job list \<Rightarrow> event list" where
  "install_events prefix ps js = map (\<lambda>(p, j). Job (Install [p] prefix) j) (zip ps js)"

text \<open>The last three statements of \<open>update\<close>, from the atomic create to the sentinel.\<close>

definition finish_update ::
  "'v helpers \<Rightarrow> string \<Rightarrow> string \<Rightarrow> string \<Rightarrow> string list \<Rightarrow> string \<Rightarrow> unit action" where
  "finish_update h package_name latest build_string filtered_packages channel =
     seq (create_with_plugins h package_name latest build_string filtered_packages channel) (\<lambda>return_code.
     seq (if return_code \<noteq> 0
          then create_with_plugins_one_by_one h package_name latest build_string
                 filtered_packages channel
          else returns return_code) (\<lambda>return_code.
     if \<not> (return_code \<noteq> 0) then create_sentinel_file package_name latest
     else returns ()))"

section \<open>A concrete installation\<close>

text \<open>
  An installation to run the model on: the package \<open>napari\<close> at version 0.4.1 with one
  plugin, a channel that offers 0.4.1, 0.4.2 and the release candidate 0.4.3rc1, and a
  backend whose batched create fails, whose create of a single package succeeds, and
  whose install and remove jobs fail.
\<close>

definition demo_parse :: "string \<Rightarrow> string list" where
  "demo_parse s =
     (if s = ''napari=0.4.1=py'' then [''napari'', ''0.4.1'', ''py'']
      else if s = ''napari=0.4.1'' then [''napari'', ''0.4.1'']
      else if s = ''napari'' then [''napari'', [], []]
      else [])"

definition demo_parse_version :: "string \<Rightarrow> error + nat" where
  "demo_parse_version s =
     (if s = [] then Inr 0
      else if s = ''0.4.1'' then Inr 1
      else if s = ''0.4.2'' then Inr 2
      else if s = ''0.4.3rc1'' then Inr 3
      else Inl InvalidVersion)"

definition demo_backend :: "event list \<Rightarrow> call \<Rightarrow> string set \<Rightarrow> job \<times> string set" where
  "demo_backend l c d =
     (case c of
        Create ps prefix \<Rightarrow>
          if length ps > 1 then (\<lparr>job_id = 11, exit_code = 1\<rparr>, d)
          else (\<lparr>job_id = 12, exit_code = 0\<rparr>, insert prefix d)
      | Install ps prefix \<Rightarrow> (\<lparr>job_id = 13, exit_code = 1\<rparr>, d)
      | Remove prefix \<Rightarrow> (\<lparr>job_id = 14, exit_code = 1\<rparr>, d))"

definition demo :: "nat helpers" where
  "demo = \<lparr>parse_conda_version_spec = demo_parse,
           get_prefix_by_name = (\<lambda>n. ''/envs/'' @ n),
           conda_package_versions = (\<lambda>n c. Inr [''0.4.1'', ''0.4.2'', ''0.4.3rc1'']),
           plugin_versions = (\<lambda>u. Inr [''plugin-a'']),
           sort_versions = (\<lambda>vs. vs),
           is_stable_version = (\<lambda>v. v \<noteq> ''0.4.3rc1''),
           parse_version = demo_parse_version,
           get_installed_versions = (\<lambda>n d s. [(''0.4.1'', ''py'')]),
           get_broken_envs = (\<lambda>n d s. []),
           installer_list = (\<lambda>p d. [\<lparr>name = ''napari'', item_version = ''0.4.1''\<rparr>,
                                        \<lparr>name = ''plugin-a'', item_version = ''1.0''\<rparr>]),
           backend = demo_backend\<rparr>"


definition w0 :: world where
  "w0 = \<lparr>dirs = {''/envs/napari-0.4.1''}, sentinels = {(''napari'', ''0.4.1'')},
         lock_file = Unlocked, log = []\<rparr>"


text \<open>The same installation with a backend on which every job fails.\<close>

definition demo_failing :: "nat helpers" where
  "demo_failing = demo\<lparr>backend := (\<lambda>l c d. (\<lparr>job_id = 15, exit_code = 1\<rparr>, d))\<rparr>"

text \<open>The same installation with a backend whose remove jobs succeed and delete the prefix.\<close>

definition demo_removing :: "nat helpers" where
  "demo_removing =
     demo\<lparr>backend := (\<lambda>l c d. case c of
                          Remove prefix \<Rightarrow> (\<lparr>job_id = 14, exit_code = 0\<rparr>, d - {prefix})
                        | _ \<Rightarrow> demo_backend l c d)\<rparr>"

text \<open>The same installation once 0.4.2 is installed beside 0.4.1.\<close>

definition demo_installed :: "nat helpers" where
  "demo_installed =
     demo\<lparr>get_installed_versions := (\<lambda>n d s. [(''0.4.1'', ''py''), (''0.4.2'', ''py'')])\<rparr>"

definition w_both :: world where
  "w_both = \<lparr>dirs = {''/envs/napari-0.4.1'', ''/envs/napari-0.4.2''},
         sentinels = {(''napari'', ''0.4.1''), (''napari'', ''0.4.2'')},
         lock_file = Unlocked, log = []\<rparr>"

text \<open>Command lines of the updater for this installation.\<close>

definition cl_check :: cmdline where
  "cl_check = \<lparr>cl_command = ''check-updates'', cl_package = ''napari=0.4.1=py'',
               cl_current_version = None, cl_channel = None, cl_plugins = None,
               cl_dev = False\<rparr>"

definition cl_restore :: cmdline where
  "cl_restore = \<lparr>cl_command = ''restore'', cl_package = ''napari=0.4.1'',
                 cl_current_version = None, cl_channel = None, cl_plugins = None,
                 cl_dev = False\<rparr>"

definition cl_update :: cmdline where
  "cl_update = \<lparr>cl_command = ''update'', cl_package = ''napari=0.4.1=py'',
                cl_current_version = None, cl_channel = None, cl_plugins = None,
                cl_dev = False\<rparr>"

text \<open>The channel a command line selects: the one given, or the default.\<close>

definition channel_of :: "cmdline \<Rightarrow> string" where
  "channel_of cl = (case cl_channel cl of None \<Rightarrow> DEFAULT_CHANNEL | Some c \<Rightarrow> c)"

text \<open>The events \<open>main\<close> adds to the log.\<close>

definition main_events :: "('v::ord) helpers \<Rightarrow> nat \<Rightarrow> cmdline \<Rightarrow> world \<Rightarrow> event list" where
  "main_events h pid cl w = drop (length (log w)) (log (snd (main h pid cl w)))"
section \<open>Properties of \<open>check_updates\<close>\<close>







text \<open>\<open>check_updates\<close> reads the directories and the sentinels only.\<close>

lemma check_updates_reads:
  "dirs w' = dirs w \<Longrightarrow> sentinels w' = sentinels w
     \<Longrightarrow> check_updates h package dev channel w' = check_updates h package dev channel w"
  unfolding check_updates_def by simp

lemma demo_check_updates:
  "check_updates demo ''napari=0.4.1=py'' False c w =
     Inr \<lparr>available_versions = [''0.4.1'', ''0.4.2''],
          current_version = ''0.4.1'',
          latest_version = ''0.4.2'',
          previous_version = ''0.4.2'',
          found_versions = [''0.4.1''],
          res_update = True,
          installed = False,
          status = []\<rparr>"
  by (simp add: check_updates_def and_then_def unpack3_def demo_def demo_parse_def
      demo_parse_version_def versions_of_def latest_of_def previous_of_def getitem_def Let_def)

text \<open>
  Claim C5. The field \<open>previous_version\<close> is the element before the current version in the
  filtered, sorted list, and the empty string when the current version is not in the
  list or is its first element. The code reads \<open>filtered_version[index - 1]\<close>, and for the
  first element the index \<open>-1\<close> is the last element of the list: with 0.4.1 and 0.4.2
  available and 0.4.1 current, \<open>check_updates\<close> gives 0.4.2 as the previous version.
\<close>

theorem check_updates_previous_of_first:
  "map_sum id previous_version (check_updates demo ''napari=0.4.1=py'' False ''conda-forge'' w0)
     = Inr ''0.4.2''
   \<and> map_sum id available_versions (check_updates demo ''napari=0.4.1=py'' False ''conda-forge'' w0)
     = Inr [''0.4.1'', ''0.4.2'']
   \<and> map_sum id current_version (check_updates demo ''napari=0.4.1=py'' False ''conda-forge'' w0)
     = Inr ''0.4.1''"
  unfolding demo_check_updates by simp



section \<open>Properties of \<open>update\<close>\<close>

lemma installer_run_props:
  "fst (installer_run h c w) = Inr (fst (backend h (log w) c (dirs w)))"
  "sentinels (snd (installer_run h c w)) = sentinels w"
  "lock_file (snd (installer_run h c w)) = lock_file w"
  "log (snd (installer_run h c w)) = log w @ [Job c (fst (backend h (log w) c (dirs w)))]"
  "dirs (snd (installer_run h c w)) = snd (backend h (log w) c (dirs w))"
  unfolding installer_run_def by (simp_all add: split_beta)

lemma installer_run_eq:
  "installer_run h c w =
     (Inr (fst (backend h (log w) c (dirs w))),
      w\<lparr>dirs := snd (backend h (log w) c (dirs w)),
        log := log w @ [Job c (fst (backend h (log w) c (dirs w)))]\<rparr>)"
  unfolding installer_run_def by (simp add: split_beta)

lemma install_each_props:
  "fst (install_each h ps prefix w) = Inr ()
   \<and> sentinels (snd (install_each h ps prefix w)) = sentinels w
   \<and> lock_file (snd (install_each h ps prefix w)) = lock_file w
   \<and> (\<exists>js. length js = length ps
          \<and> log (snd (install_each h ps prefix w))
              = log w @ map (\<lambda>(p, j). Job (Install [p] prefix) j) (zip ps js))"
proof (induction ps arbitrary: w)
  case Nil
  show ?case by simp
next
  case (Cons p ps)
  let ?j = "fst (backend h (log w) (Install [p] prefix) (dirs w))"
  let ?w = "w\<lparr>dirs := snd (backend h (log w) (Install [p] prefix) (dirs w)),
        log := log w @ [Job (Install [p] prefix) ?j]\<rparr>"
  have step: "install_each h (p # ps) prefix w = install_each h ps prefix ?w"
    by (simp add: installer_install_def installer_run_eq)
  from Cons.IH [of ?w] obtain js where
    a: "fst (install_each h ps prefix ?w) = Inr ()"
    and b: "sentinels (snd (install_each h ps prefix ?w)) = sentinels ?w"
    and c: "lock_file (snd (install_each h ps prefix ?w)) = lock_file ?w"
    and d: "length js = length ps"
    and e: "log (snd (install_each h ps prefix ?w))
              = log ?w @ map (\<lambda>(p, j). Job (Install [p] prefix) j) (zip ps js)"
    by (elim exE conjE)
  have "length (?j # js) = length (p # ps)" using d by simp
  moreover have "log (snd (install_each h (p # ps) prefix w))
      = log w @ map (\<lambda>(p, j). Job (Install [p] prefix) j) (zip (p # ps) (?j # js))"
    unfolding step e by simp
  ultimately have "\<exists>js. length js = length (p # ps)
          \<and> log (snd (install_each h (p # ps) prefix w))
              = log w @ map (\<lambda>(p, j). Job (Install [p] prefix) j) (zip (p # ps) js)"
    by (intro exI [of _ "?j # js"] conjI)
  moreover have "fst (install_each h (p # ps) prefix w) = Inr ()" unfolding step by (rule a)
  moreover have "sentinels (snd (install_each h (p # ps) prefix w)) = sentinels w"
    unfolding step b by simp
  moreover have "lock_file (snd (install_each h (p # ps) prefix w)) = lock_file w"
    unfolding step c by simp
  ultimately show ?case by (intro conjI)
qed

lemma seq_fst: "fst (f w) = Inr x \<Longrightarrow> seq f g w = g x (snd (f w))"
  unfolding seq_def by (simp add: split_beta)

lemma seq_Inl: "fst (f w) = Inl e \<Longrightarrow> seq f g w = (Inl e, snd (f w))"
  unfolding seq_def by (simp add: split_beta)

lemma create_with_plugins_eq:
  "create_with_plugins h n v b fp channel w =
     (Inr (exit_code (fst (backend h (log w)
             (Create (pinned_spec n v b # fp) (prefix_for h n v)) (dirs w)))),
      snd (installer_run h (Create (pinned_spec n v b # fp) (prefix_for h n v)) w))"
proof -
  let ?c = "Create (pinned_spec n v b # fp) (prefix_for h n v)"
  have a: "fst (installer_run h ?c w) = Inr (fst (backend h (log w) ?c (dirs w)))"
    by (rule installer_run_props)
  show ?thesis
    unfolding create_with_plugins_def Let_def installer_create_def append_Cons append_Nil
    by (subst seq_fst [of "installer_run h ?c" w, OF a]) (simp add: returns_def)
qed

lemma one_by_one_eq:
  "create_with_plugins_one_by_one h n v b fp channel w =
     (Inr (exit_code (fst (backend h (log w)
             (Create [pinned_spec n v b] (prefix_for h n v)) (dirs w)))),
      snd (install_each h fp (prefix_for h n v)
         (snd (installer_run h (Create [pinned_spec n v b] (prefix_for h n v)) w))))"
proof -
  let ?pfx = "prefix_for h n v"
  let ?c = "Create [pinned_spec n v b] ?pfx"
  let ?w = "snd (installer_run h ?c w)"
  have a: "fst (installer_run h ?c w) = Inr (fst (backend h (log w) ?c (dirs w)))"
    by (rule installer_run_props)
  have b: "fst (install_each h fp ?pfx ?w) = Inr ()"
    using install_each_props [of h fp ?pfx ?w] by (elim conjE)
  show ?thesis
    unfolding create_with_plugins_one_by_one_def Let_def installer_create_def
    apply (subst seq_fst [of "installer_run h ?c" w, OF a])
    apply (subst seq_fst [of "install_each h fp ?pfx" ?w, OF b])
    apply (simp add: returns_def)
    done
qed

lemma finish_update_eq:
  "finish_update h n v b fp channel w =
     (let pfx = prefix_for h n v;
          spec = pinned_spec n v b;
          j1 = fst (backend h (log w) (Create (spec # fp) pfx) (dirs w));
          w1 = snd (installer_run h (Create (spec # fp) pfx) w)
      in if exit_code j1 = 0 then create_sentinel_file n v w1
         else
           let j2 = fst (backend h (log w1) (Create [spec] pfx) (dirs w1));
               w2 = snd (install_each h fp pfx (snd (installer_run h (Create [spec] pfx) w1)))
           in if exit_code j2 = 0 then create_sentinel_file n v w2 else (Inr (), w2))"
proof -
  let ?pfx = "prefix_for h n v"
  let ?w1 = "snd (installer_run h (Create (pinned_spec n v b # fp) ?pfx) w)"
  have a: "fst (create_with_plugins h n v b fp channel w)
      = Inr (exit_code (fst (backend h (log w) (Create (pinned_spec n v b # fp) ?pfx) (dirs w))))"
    by (simp add: create_with_plugins_eq)
  have a': "snd (create_with_plugins h n v b fp channel w) = ?w1"
    by (simp add: create_with_plugins_eq)
  have b: "fst (create_with_plugins_one_by_one h n v b fp channel ?w1)
      = Inr (exit_code (fst (backend h (log ?w1) (Create [pinned_spec n v b] ?pfx) (dirs ?w1))))"
    by (simp add: one_by_one_eq)
  have b': "snd (create_with_plugins_one_by_one h n v b fp channel ?w1)
      = snd (install_each h fp ?pfx (snd (installer_run h (Create [pinned_spec n v b] ?pfx) ?w1)))"
    by (simp add: one_by_one_eq)
  let ?j1 = "fst (backend h (log w) (Create (pinned_spec n v b # fp) ?pfx) (dirs w))"
  let ?k = "\<lambda>return_code. if \<not> (return_code \<noteq> (0::int)) then create_sentinel_file n v
     else returns ()"
  show ?thesis
  proof (cases "exit_code ?j1 = 0")
    case True
    have "finish_update h n v b fp channel w = create_sentinel_file n v ?w1"
      unfolding finish_update_def
      apply (subst seq_fst [of "create_with_plugins h n v b fp channel" w, OF a])
      apply (unfold a')
      apply (simp add: True seq_def returns_def)
      done
    then show ?thesis by (simp add: Let_def True)
  next
    case False
    have "finish_update h n v b fp channel w
        = seq (create_with_plugins_one_by_one h n v b fp channel) ?k ?w1"
      unfolding finish_update_def
      apply (subst seq_fst [of "create_with_plugins h n v b fp channel" w, OF a])
      apply (unfold a')
      apply (simp add: False)
      done
    also have "\<dots> = ?k (exit_code (fst (backend h (log ?w1) (Create [pinned_spec n v b] ?pfx) (dirs ?w1))))
         (snd (install_each h fp ?pfx (snd (installer_run h (Create [pinned_spec n v b] ?pfx) ?w1))))"
      apply (subst seq_fst [of "create_with_plugins_one_by_one h n v b fp channel" ?w1, OF b])
      apply (unfold b')
      apply (rule refl)
      done
    finally show ?thesis by (simp add: Let_def False returns_def)
  qed
qed

lemma update_front_ok:
  assumes spec: "parse_conda_version_spec h package = [n, cur, b]"
    and cu: "check_updates h package dev channel w = Inr r"
    and av: "available_plugins_of h plugins_url = Inr avail"
  shows "update h package dev channel plugins plugins_url w =
     finish_update h n (latest_version r) b
       (filtered_packages_of avail (installer_list h (prefix_for h n cur) (dirs w))) channel
       (w\<lparr>log := log w @ [SaveState n (installer_list h (prefix_for h n cur) (dirs w))
                             channel dev avail]\<rparr>)"
proof -
  have u: "unpack3 (parse_conda_version_spec h package) = Inr (n, cur, b)"
    unfolding spec unpack3_def by simp
  show ?thesis
    unfolding update_def finish_update_def u av
    by (simp add: seq_def lift_def reads_def cu Let_def save_state_file_def emit_def)
qed

lemma update_front_fail:
  assumes "(\<forall>n cur b. parse_conda_version_spec h package \<noteq> [n, cur, b])
     \<or> (\<exists>e. check_updates h package dev channel w = Inl e)
     \<or> (\<exists>e. available_plugins_of h plugins_url = Inl e)"
  shows "\<exists>e. update h package dev channel plugins plugins_url w = (Inl e, w)"
proof (cases "unpack3 (parse_conda_version_spec h package)")
  case (Inl e)
  then show ?thesis
    unfolding update_def by (simp add: seq_def lift_def)
next
  case (Inr t)
  obtain n cur b where t: "t = (n, cur, b)" by (cases t)
  have spec: "parse_conda_version_spec h package = [n, cur, b]"
    using Inr unfolding t unpack3_def
    by (simp split: list.splits)
  show ?thesis
  proof (cases "check_updates h package dev channel w")
    case (Inl e)
    then show ?thesis
      unfolding update_def Inr t by (simp add: seq_def lift_def reads_def)
  next
    case cu: (Inr r)
    from assms spec cu obtain e where "available_plugins_of h plugins_url = Inl e"
      by auto
    then show ?thesis
      unfolding update_def Inr t by (simp add: seq_def lift_def reads_def cu Let_def)
  qed
qed

lemma create_exit_codes_install: "create_exit_codes (install_events prefix ps js @ evs) = create_exit_codes evs"
  unfolding install_events_def
  by (induction ps js rule: list_induct2') simp_all

lemma sentinel_not_install: "CreateSentinel n v \<notin> set (install_events prefix ps js)"
  unfolding install_events_def by (auto simp: in_set_zip)

lemma create_sentinel_file_eq:
  "create_sentinel_file n v w =
     (Inr (), w\<lparr>sentinels := insert (n, v) (sentinels w), log := log w @ [CreateSentinel n v]\<rparr>)"
  by (simp add: create_sentinel_file_def)

lemma finish_update_shape:
  "\<exists>j1 j2 js. length js = length fp
     \<and> fst (finish_update h n v b fp channel w) = Inr ()
     \<and> log (snd (finish_update h n v b fp channel w)) =
         log w @ Job (Create (pinned_spec n v b # fp) (prefix_for h n v)) j1 #
           (if exit_code j1 = 0 then [CreateSentinel n v]
            else Job (Create [pinned_spec n v b] (prefix_for h n v)) j2 #
                 install_events (prefix_for h n v) fp js
                 @ (if exit_code j2 = 0 then [CreateSentinel n v] else []))
     \<and> sentinels (snd (finish_update h n v b fp channel w)) =
         (if exit_code j1 = 0 \<or> exit_code j2 = 0 then insert (n, v) (sentinels w)
          else sentinels w)"
proof -
  let ?pfx = "prefix_for h n v"
  let ?spec = "pinned_spec n v b"
  let ?j1 = "fst (backend h (log w) (Create (?spec # fp) ?pfx) (dirs w))"
  let ?w1 = "snd (installer_run h (Create (?spec # fp) ?pfx) w)"
  let ?j2 = "fst (backend h (log ?w1) (Create [?spec] ?pfx) (dirs ?w1))"
  let ?w1' = "snd (installer_run h (Create [?spec] ?pfx) ?w1)"
  let ?w2 = "snd (install_each h fp ?pfx ?w1')"
  from install_each_props [of h fp ?pfx ?w1'] obtain js where
    s2: "sentinels ?w2 = sentinels ?w1'"
    and len: "length js = length fp"
    and l2: "log ?w2 = log ?w1' @ map (\<lambda>(p, j). Job (Install [p] ?pfx) j) (zip fp js)"
    by (elim exE conjE)
  have l1: "log ?w1 = log w @ [Job (Create (?spec # fp) ?pfx) ?j1]"
    by (rule installer_run_props)
  have s1: "sentinels ?w1 = sentinels w" by (rule installer_run_props)
  have l1': "log ?w1' = log ?w1 @ [Job (Create [?spec] ?pfx) ?j2]"
    by (rule installer_run_props)
  have s1': "sentinels ?w1' = sentinels ?w1" by (rule installer_run_props)
  have "fst (finish_update h n v b fp channel w) = Inr ()
     \<and> log (snd (finish_update h n v b fp channel w)) =
         log w @ Job (Create (?spec # fp) ?pfx) ?j1 #
           (if exit_code ?j1 = 0 then [CreateSentinel n v]
            else Job (Create [?spec] ?pfx) ?j2 #
                 install_events ?pfx fp js
                 @ (if exit_code ?j2 = 0 then [CreateSentinel n v] else []))
     \<and> sentinels (snd (finish_update h n v b fp channel w)) =
         (if exit_code ?j1 = 0 \<or> exit_code ?j2 = 0 then insert (n, v) (sentinels w)
          else sentinels w)"
    unfolding finish_update_eq Let_def create_sentinel_file_eq install_events_def
    by (simp add: l2 l1' l1 s2 s1' s1)
  with len show ?thesis by blast
qed


subsection \<open>What a run of \<open>update\<close> leaves behind\<close>

lemma create_exit_codes_install_only: "create_exit_codes (install_events prefix ps js) = []"
  using create_exit_codes_install [of prefix ps js "[]"] by simp

lemma shape_final_exit_code:
  "final_exit_code
     (SaveState a b c d e # Job (Create ps pfx) j1 #
       (if exit_code j1 = 0 then [CreateSentinel n v]
        else Job (Create ps' pfx) j2 # install_events pfx fp js
             @ (if exit_code j2 = 0 then [CreateSentinel n v] else [])))
   = Some (if exit_code j1 = 0 then 0 else exit_code j2)"
  by (simp add: final_exit_code_def create_exit_codes_install create_exit_codes_install_only)

lemma shape_sentinel:
  "CreateSentinel n' v' \<in> set
     (SaveState a b c d e # Job (Create ps pfx) j1 #
       (if exit_code j1 = 0 then [CreateSentinel n v]
        else Job (Create ps' pfx) j2 # install_events pfx fp js
             @ (if exit_code j2 = 0 then [CreateSentinel n v] else [])))
   \<longleftrightarrow> n' = n \<and> v' = v \<and> (exit_code j1 = 0 \<or> exit_code j2 = 0)"
  by (auto simp: sentinel_not_install)

lemma update_shape:
  "(\<exists>e. update h package dev channel plugins plugins_url w = (Inl e, w))
   \<or> (\<exists>n cur b r avail j1 j2 js.
        parse_conda_version_spec h package = [n, cur, b]
      \<and> check_updates h package dev channel w = Inr r
      \<and> available_plugins_of h plugins_url = Inr avail
      \<and> length js = length (filtered_packages_of avail (installer_list h (prefix_for h n cur) (dirs w)))
      \<and> fst (update h package dev channel plugins plugins_url w) = Inr ()
      \<and> events_of (update h package dev channel plugins plugins_url) w =
          SaveState n (installer_list h (prefix_for h n cur) (dirs w)) channel dev avail #
          Job (Create (pinned_spec n (latest_version r) b #
                       filtered_packages_of avail (installer_list h (prefix_for h n cur) (dirs w)))
                 (prefix_for h n (latest_version r))) j1 #
          (if exit_code j1 = 0 then [CreateSentinel n (latest_version r)]
           else Job (Create [pinned_spec n (latest_version r) b]
                       (prefix_for h n (latest_version r))) j2 #
                install_events (prefix_for h n (latest_version r))
                  (filtered_packages_of avail (installer_list h (prefix_for h n cur) (dirs w))) js
                @ (if exit_code j2 = 0 then [CreateSentinel n (latest_version r)] else []))
      \<and> sentinels (snd (update h package dev channel plugins plugins_url w)) =
          (if exit_code j1 = 0 \<or> exit_code j2 = 0
           then insert (n, latest_version r) (sentinels w) else sentinels w))"
proof (cases "(\<forall>n cur b. parse_conda_version_spec h package \<noteq> [n, cur, b])
     \<or> (\<exists>e. check_updates h package dev channel w = Inl e)
     \<or> (\<exists>e. available_plugins_of h plugins_url = Inl e)")
  case True
  then show ?thesis
    using update_front_fail [of h package dev channel w plugins_url plugins] by blast
next
  case False
  then obtain n cur b where spec: "parse_conda_version_spec h package = [n, cur, b]"
    by blast
  from False obtain r where cu: "check_updates h package dev channel w = Inr r"
    by (cases "check_updates h package dev channel w") auto
  from False obtain avail where av: "available_plugins_of h plugins_url = Inr avail"
    by (cases "available_plugins_of h plugins_url") auto
  let ?pk = "installer_list h (prefix_for h n cur) (dirs w)"
  let ?fp = "filtered_packages_of avail ?pk"
  let ?w = "w\<lparr>log := log w @ [SaveState n ?pk channel dev avail]\<rparr>"
  have u: "update h package dev channel plugins plugins_url w =
      finish_update h n (latest_version r) b ?fp channel ?w"
    by (rule update_front_ok [OF spec cu av])
  obtain j1 j2 js where len: "length js = length ?fp"
    and ok: "fst (finish_update h n (latest_version r) b ?fp channel ?w) = Inr ()"
    and lg: "log (snd (finish_update h n (latest_version r) b ?fp channel ?w)) =
         log ?w @ Job (Create (pinned_spec n (latest_version r) b # ?fp)
                         (prefix_for h n (latest_version r))) j1 #
           (if exit_code j1 = 0 then [CreateSentinel n (latest_version r)]
            else Job (Create [pinned_spec n (latest_version r) b]
                        (prefix_for h n (latest_version r))) j2 #
                 install_events (prefix_for h n (latest_version r)) ?fp js
                 @ (if exit_code j2 = 0 then [CreateSentinel n (latest_version r)] else []))"
    and se: "sentinels (snd (finish_update h n (latest_version r) b ?fp channel ?w)) =
         (if exit_code j1 = 0 \<or> exit_code j2 = 0
          then insert (n, latest_version r) (sentinels ?w) else sentinels ?w)"
    using finish_update_shape [of ?fp h n "latest_version r" b channel ?w]
    by (elim exE conjE)
  have ev: "events_of (update h package dev channel plugins plugins_url) w =
          SaveState n ?pk channel dev avail #
          Job (Create (pinned_spec n (latest_version r) b # ?fp)
                 (prefix_for h n (latest_version r))) j1 #
          (if exit_code j1 = 0 then [CreateSentinel n (latest_version r)]
           else Job (Create [pinned_spec n (latest_version r) b]
                       (prefix_for h n (latest_version r))) j2 #
                install_events (prefix_for h n (latest_version r)) ?fp js
                @ (if exit_code j2 = 0 then [CreateSentinel n (latest_version r)] else []))"
    unfolding events_of_def u lg by simp
  have se': "sentinels (snd (update h package dev channel plugins plugins_url w)) =
          (if exit_code j1 = 0 \<or> exit_code j2 = 0
           then insert (n, latest_version r) (sentinels w) else sentinels w)"
    unfolding u se by simp
  have ok': "fst (update h package dev channel plugins plugins_url w) = Inr ()"
    unfolding u by (rule ok)
  show ?thesis
    using spec cu av len ok' ev se' by blast
qed

lemma update_fail_events:
  assumes "update h package dev channel plugins plugins_url w = (Inl e, w)"
  shows "events_of (update h package dev channel plugins plugins_url) w = []"
  unfolding events_of_def assms by simp

lemma demo_update:
  "update demo ''napari=0.4.1=py'' False ''conda-forge'' None (Some ''https://plugins'') w0 =
     (Inr (),
      \<lparr>dirs = {''/envs/napari-0.4.2'', ''/envs/napari-0.4.1''},
       sentinels = {(''napari'', ''0.4.2''), (''napari'', ''0.4.1'')},
       lock_file = Unlocked,
       log = [SaveState ''napari''
                [\<lparr>name = ''napari'', item_version = ''0.4.1''\<rparr>,
                 \<lparr>name = ''plugin-a'', item_version = ''1.0''\<rparr>]
                ''conda-forge'' False [''plugin-a''],
              Job (Create [''napari=0.4.2=*py*'', ''plugin-a''] ''/envs/napari-0.4.2'')
                \<lparr>job_id = 11, exit_code = 1\<rparr>,
              Job (Create [''napari=0.4.2=*py*''] ''/envs/napari-0.4.2'')
                \<lparr>job_id = 12, exit_code = 0\<rparr>,
              Job (Install [''plugin-a''] ''/envs/napari-0.4.2'')
                \<lparr>job_id = 13, exit_code = 1\<rparr>,
              CreateSentinel ''napari'' ''0.4.2'']\<rparr>)"
  unfolding update_def demo_check_updates
  by (simp add: seq_def lift_def reads_def returns_def unpack3_def demo_def demo_parse_def
      available_plugins_of_def filtered_packages_of_def save_state_file_def emit_def
      create_with_plugins_def create_with_plugins_one_by_one_def installer_create_def
      installer_install_def installer_run_def demo_backend_def prefix_for_def pinned_spec_def
      create_sentinel_file_def w0_def Let_def insert_commute)

lemma demo_update_events:
  "events_of (update demo ''napari=0.4.1=py'' False ''conda-forge'' None (Some ''https://plugins'')) w0 =
     [SaveState ''napari''
        [\<lparr>name = ''napari'', item_version = ''0.4.1''\<rparr>,
         \<lparr>name = ''plugin-a'', item_version = ''1.0''\<rparr>]
        ''conda-forge'' False [''plugin-a''],
      Job (Create [''napari=0.4.2=*py*'', ''plugin-a''] ''/envs/napari-0.4.2'')
        \<lparr>job_id = 11, exit_code = 1\<rparr>,
      Job (Create [''napari=0.4.2=*py*''] ''/envs/napari-0.4.2'')
        \<lparr>job_id = 12, exit_code = 0\<rparr>,
      Job (Install [''plugin-a''] ''/envs/napari-0.4.2'')
        \<lparr>job_id = 13, exit_code = 1\<rparr>,
      CreateSentinel ''napari'' ''0.4.2'']"
  unfolding events_of_def demo_update by (simp add: w0_def)

lemma demo_failing_update_events:
  "events_of (update demo_failing ''napari=0.4.1=py'' False ''conda-forge'' None (Some ''https://plugins'')) w0 =
     [SaveState ''napari''
        [\<lparr>name = ''napari'', item_version = ''0.4.1''\<rparr>,
         \<lparr>name = ''plugin-a'', item_version = ''1.0''\<rparr>]
        ''conda-forge'' False [''plugin-a''],
      Job (Create [''napari=0.4.2=*py*'', ''plugin-a''] ''/envs/napari-0.4.2'')
        \<lparr>job_id = 15, exit_code = 1\<rparr>,
      Job (Create [''napari=0.4.2=*py*''] ''/envs/napari-0.4.2'')
        \<lparr>job_id = 15, exit_code = 1\<rparr>,
      Job (Install [''plugin-a''] ''/envs/napari-0.4.2'')
        \<lparr>job_id = 15, exit_code = 1\<rparr>]"
proof -
  have cu: "check_updates demo_failing ''napari=0.4.1=py'' False ''conda-forge''
      = check_updates demo ''napari=0.4.1=py'' False ''conda-forge''"
    by (rule ext) (simp add: check_updates_def demo_failing_def versions_of_def)
  show ?thesis
    unfolding events_of_def update_def cu demo_check_updates
    by (simp add: seq_def lift_def reads_def returns_def unpack3_def demo_failing_def demo_def
        demo_parse_def available_plugins_of_def filtered_packages_of_def save_state_file_def
        emit_def create_with_plugins_def create_with_plugins_one_by_one_def installer_create_def
        installer_install_def installer_run_def prefix_for_def pinned_spec_def
        create_sentinel_file_def w0_def Let_def)
qed

text \<open>
  Claim C1. \<open>update\<close> writes a sentinel file exactly when the final relevant exit code of
  the run is zero: the exit code of the atomic create or, when that one is not zero, the
  exit code of the fallback's create of the pinned package. The sentinel it writes is the
  one of the package at the latest version that \<open>check_updates\<close> reported, and a run whose
  final relevant exit code is not zero, or that never reached a create, leaves the set of
  sentinel files as it found it.
\<close>

theorem update_sentinel_iff_exit_code_zero:
  "((\<exists>n v. CreateSentinel n v \<in> set (events_of (update h package dev channel plugins plugins_url) w))
      \<longleftrightarrow> final_exit_code (events_of (update h package dev channel plugins plugins_url) w) = Some 0)
   \<and> (\<forall>n v. CreateSentinel n v \<in> set (events_of (update h package dev channel plugins plugins_url) w)
        \<longrightarrow> (\<exists>cur b r. parse_conda_version_spec h package = [n, cur, b]
              \<and> check_updates h package dev channel w = Inr r \<and> v = latest_version r
              \<and> sentinels (snd (update h package dev channel plugins plugins_url w))
                  = insert (n, v) (sentinels w)))
   \<and> (final_exit_code (events_of (update h package dev channel plugins plugins_url) w) \<noteq> Some 0
        \<longrightarrow> sentinels (snd (update h package dev channel plugins plugins_url w)) = sentinels w)"
proof -
  let ?U = "update h package dev channel plugins plugins_url"
  consider (fail) e where "?U w = (Inl e, w)"
    | (run) n cur b r avail j1 j2 js where
        "parse_conda_version_spec h package = [n, cur, b]"
        "check_updates h package dev channel w = Inr r"
        "events_of ?U w =
          SaveState n (installer_list h (prefix_for h n cur) (dirs w)) channel dev avail #
          Job (Create (pinned_spec n (latest_version r) b #
                       filtered_packages_of avail (installer_list h (prefix_for h n cur) (dirs w)))
                 (prefix_for h n (latest_version r))) j1 #
          (if exit_code j1 = 0 then [CreateSentinel n (latest_version r)]
           else Job (Create [pinned_spec n (latest_version r) b]
                       (prefix_for h n (latest_version r))) j2 #
                install_events (prefix_for h n (latest_version r))
                  (filtered_packages_of avail (installer_list h (prefix_for h n cur) (dirs w))) js
                @ (if exit_code j2 = 0 then [CreateSentinel n (latest_version r)] else []))"
        "sentinels (snd (?U w)) =
          (if exit_code j1 = 0 \<or> exit_code j2 = 0
           then insert (n, latest_version r) (sentinels w) else sentinels w)"
    using update_shape [of h package dev channel plugins plugins_url w] by blast
  then show ?thesis
  proof cases
    case fail
    have ev: "events_of ?U w = []" by (rule update_fail_events [OF fail])
    show ?thesis unfolding ev by (simp add: final_exit_code_def fail)
  next
    case run
    have fin: "final_exit_code (events_of ?U w) = Some (if exit_code j1 = 0 then 0 else exit_code j2)"
      unfolding run(3) by (rule shape_final_exit_code)
    have mem: "\<And>n' v'. CreateSentinel n' v' \<in> set (events_of ?U w)
        \<longleftrightarrow> n' = n \<and> v' = latest_version r \<and> (exit_code j1 = 0 \<or> exit_code j2 = 0)"
      unfolding run(3) by (rule shape_sentinel)
    show ?thesis
      unfolding fin mem run(4) using run(1) run(2) by auto
  qed
qed

theorem update_sentinel_iff_exit_code_zero_witness:
  "(CreateSentinel ''napari'' ''0.4.2''
      \<in> set (events_of (update demo ''napari=0.4.1=py'' False ''conda-forge'' None
                          (Some ''https://plugins'')) w0)
    \<and> final_exit_code (events_of (update demo ''napari=0.4.1=py'' False ''conda-forge'' None
                          (Some ''https://plugins'')) w0) = Some 0
    \<and> sentinels (snd (update demo ''napari=0.4.1=py'' False ''conda-forge'' None
                          (Some ''https://plugins'') w0))
        = insert (''napari'', ''0.4.2'') (sentinels w0))
   \<and> (final_exit_code (events_of (update demo_failing ''napari=0.4.1=py'' False ''conda-forge'' None
                          (Some ''https://plugins'')) w0) = Some 1
    \<and> sentinels (snd (update demo_failing ''napari=0.4.1=py'' False ''conda-forge'' None
                          (Some ''https://plugins'') w0)) = sentinels w0)"
proof
  have mem: "CreateSentinel ''napari'' ''0.4.2''
      \<in> set (events_of (update demo ''napari=0.4.1=py'' False ''conda-forge'' None
                          (Some ''https://plugins'')) w0)"
    unfolding demo_update_events by simp
  from update_sentinel_iff_exit_code_zero
         [of demo "''napari=0.4.1=py''" False "''conda-forge''" None "Some ''https://plugins''" w0]
       mem
  show "CreateSentinel ''napari'' ''0.4.2''
      \<in> set (events_of (update demo ''napari=0.4.1=py'' False ''conda-forge'' None
                          (Some ''https://plugins'')) w0)
    \<and> final_exit_code (events_of (update demo ''napari=0.4.1=py'' False ''conda-forge'' None
                          (Some ''https://plugins'')) w0) = Some 0
    \<and> sentinels (snd (update demo ''napari=0.4.1=py'' False ''conda-forge'' None
                          (Some ''https://plugins'') w0))
        = insert (''napari'', ''0.4.2'') (sentinels w0)"
    by blast
next
  have fin: "final_exit_code (events_of (update demo_failing ''napari=0.4.1=py'' False
                 ''conda-forge'' None (Some ''https://plugins'')) w0) = Some 1"
    unfolding demo_failing_update_events
    by (simp add: final_exit_code_def)
  from update_sentinel_iff_exit_code_zero
         [of demo_failing "''napari=0.4.1=py''" False "''conda-forge''" None
             "Some ''https://plugins''" w0]
       fin
  show "final_exit_code (events_of (update demo_failing ''napari=0.4.1=py'' False ''conda-forge'' None
                          (Some ''https://plugins'')) w0) = Some 1
    \<and> sentinels (snd (update demo_failing ''napari=0.4.1=py'' False ''conda-forge'' None
                          (Some ''https://plugins'') w0)) = sentinels w0"
    by simp
qed

text \<open>
  Claim C2, the run the claim describes: the atomic create fails, the create of the pinned
  package succeeds and the install of the one plugin fails with exit code 1. The fallback
  runs as claimed and the sentinel is written, and \<open>update\<close> returns no value at all: the
  exit code of the install job is in the backend's log only, nothing is printed, and the
  result of the run does not name the plugin.
\<close>

theorem update_result_omits_failed_plugin:
  "fst (update demo ''napari=0.4.1=py'' False ''conda-forge'' None (Some ''https://plugins'') w0)
     = Inr ()
   \<and> events_of (update demo ''napari=0.4.1=py'' False ''conda-forge'' None
                  (Some ''https://plugins'')) w0 =
     [SaveState ''napari''
        [\<lparr>name = ''napari'', item_version = ''0.4.1''\<rparr>,
         \<lparr>name = ''plugin-a'', item_version = ''1.0''\<rparr>]
        ''conda-forge'' False [''plugin-a''],
      Job (Create [''napari=0.4.2=*py*'', ''plugin-a''] ''/envs/napari-0.4.2'')
        \<lparr>job_id = 11, exit_code = 1\<rparr>,
      Job (Create [''napari=0.4.2=*py*''] ''/envs/napari-0.4.2'')
        \<lparr>job_id = 12, exit_code = 0\<rparr>,
      Job (Install [''plugin-a''] ''/envs/napari-0.4.2'')
        \<lparr>job_id = 13, exit_code = 1\<rparr>,
      CreateSentinel ''napari'' ''0.4.2'']"
  unfolding demo_update_events by (simp add: demo_update)

text \<open>
  Claim C2, amended. When the atomic create of \<open>update\<close> returns an exit code that is not
  zero, the run goes on with exactly one create of the pinned package alone, then one install
  job per plugin of the filtered list, in order and whatever their exit codes, and it writes
  the sentinel exactly when the exit code of the pinned package's create is zero. The run
  ends normally and returns no value: the exit codes of the install jobs are not reported.
\<close>

theorem update_fallback_sequence:
  assumes "create_exit_codes (events_of (update h package dev channel plugins plugins_url) w) = c # cs"
    and "c \<noteq> 0"
  shows "\<exists>n cur b r avail j1 j2 js.
        parse_conda_version_spec h package = [n, cur, b]
      \<and> check_updates h package dev channel w = Inr r
      \<and> available_plugins_of h plugins_url = Inr avail
      \<and> exit_code j1 = c \<and> cs = [exit_code j2]
      \<and> length js = length (filtered_packages_of avail (installer_list h (prefix_for h n cur) (dirs w)))
      \<and> events_of (update h package dev channel plugins plugins_url) w =
          [SaveState n (installer_list h (prefix_for h n cur) (dirs w)) channel dev avail,
           Job (Create (pinned_spec n (latest_version r) b #
                        filtered_packages_of avail (installer_list h (prefix_for h n cur) (dirs w)))
                  (prefix_for h n (latest_version r))) j1,
           Job (Create [pinned_spec n (latest_version r) b]
                  (prefix_for h n (latest_version r))) j2]
          @ install_events (prefix_for h n (latest_version r))
              (filtered_packages_of avail (installer_list h (prefix_for h n cur) (dirs w))) js
          @ (if exit_code j2 = 0 then [CreateSentinel n (latest_version r)] else [])
      \<and> update h package dev channel plugins plugins_url w
          = (Inr (), snd (update h package dev channel plugins plugins_url w))"
proof -
  let ?U = "update h package dev channel plugins plugins_url"
  consider (fail) e where "?U w = (Inl e, w)"
    | (run) n cur b r avail j1 j2 js where
        "parse_conda_version_spec h package = [n, cur, b]"
        "check_updates h package dev channel w = Inr r"
        "available_plugins_of h plugins_url = Inr avail"
        "length js = length (filtered_packages_of avail (installer_list h (prefix_for h n cur) (dirs w)))"
        "fst (?U w) = Inr ()"
        "events_of ?U w =
          SaveState n (installer_list h (prefix_for h n cur) (dirs w)) channel dev avail #
          Job (Create (pinned_spec n (latest_version r) b #
                       filtered_packages_of avail (installer_list h (prefix_for h n cur) (dirs w)))
                 (prefix_for h n (latest_version r))) j1 #
          (if exit_code j1 = 0 then [CreateSentinel n (latest_version r)]
           else Job (Create [pinned_spec n (latest_version r) b]
                       (prefix_for h n (latest_version r))) j2 #
                install_events (prefix_for h n (latest_version r))
                  (filtered_packages_of avail (installer_list h (prefix_for h n cur) (dirs w))) js
                @ (if exit_code j2 = 0 then [CreateSentinel n (latest_version r)] else []))"
    using update_shape [of h package dev channel plugins plugins_url w] by blast
  then show ?thesis
  proof cases
    case fail
    have "events_of ?U w = []" by (rule update_fail_events [OF fail])
    with assms(1) show ?thesis by simp
  next
    case run
    have codes: "create_exit_codes (events_of ?U w) =
        (if exit_code j1 = 0 then [exit_code j1] else [exit_code j1, exit_code j2])"
      unfolding run(6)
      by (simp add: create_exit_codes_install create_exit_codes_install_only)
    from codes assms have j1: "exit_code j1 = c" and nz: "exit_code j1 \<noteq> 0"
      and cs: "cs = [exit_code j2]"
      by (auto split: if_splits)
    have ev: "events_of ?U w =
          [SaveState n (installer_list h (prefix_for h n cur) (dirs w)) channel dev avail,
           Job (Create (pinned_spec n (latest_version r) b #
                        filtered_packages_of avail (installer_list h (prefix_for h n cur) (dirs w)))
                  (prefix_for h n (latest_version r))) j1,
           Job (Create [pinned_spec n (latest_version r) b]
                  (prefix_for h n (latest_version r))) j2]
          @ install_events (prefix_for h n (latest_version r))
              (filtered_packages_of avail (installer_list h (prefix_for h n cur) (dirs w))) js
          @ (if exit_code j2 = 0 then [CreateSentinel n (latest_version r)] else [])"
      unfolding run(6) using nz by simp
    have res: "?U w = (Inr (), snd (?U w))"
      using run(5) by (cases "?U w") simp
    show ?thesis
      using run(1) run(2) run(3) run(4) j1 cs ev res by blast
  qed
qed

theorem update_fallback_sequence_witness:
  "\<exists>n cur b r avail j1 j2 js.
        parse_conda_version_spec demo ''napari=0.4.1=py'' = [n, cur, b]
      \<and> check_updates demo ''napari=0.4.1=py'' False ''conda-forge'' w0 = Inr r
      \<and> available_plugins_of demo (Some ''https://plugins'') = Inr avail
      \<and> exit_code j1 = 1 \<and> [0] = [exit_code j2]
      \<and> length js = length (filtered_packages_of avail (installer_list demo (prefix_for demo n cur) (dirs w0)))
      \<and> events_of (update demo ''napari=0.4.1=py'' False ''conda-forge'' None (Some ''https://plugins'')) w0 =
          [SaveState n (installer_list demo (prefix_for demo n cur) (dirs w0)) ''conda-forge'' False avail,
           Job (Create (pinned_spec n (latest_version r) b #
                        filtered_packages_of avail (installer_list demo (prefix_for demo n cur) (dirs w0)))
                  (prefix_for demo n (latest_version r))) j1,
           Job (Create [pinned_spec n (latest_version r) b]
                  (prefix_for demo n (latest_version r))) j2]
          @ install_events (prefix_for demo n (latest_version r))
              (filtered_packages_of avail (installer_list demo (prefix_for demo n cur) (dirs w0))) js
          @ (if exit_code j2 = 0 then [CreateSentinel n (latest_version r)] else [])
      \<and> update demo ''napari=0.4.1=py'' False ''conda-forge'' None (Some ''https://plugins'') w0
          = (Inr (), snd (update demo ''napari=0.4.1=py'' False ''conda-forge'' None (Some ''https://plugins'') w0))"
proof (rule update_fallback_sequence)
  show "create_exit_codes (events_of (update demo ''napari=0.4.1=py'' False ''conda-forge'' None
           (Some ''https://plugins'')) w0) = [1, 0]"
    unfolding demo_update_events by simp
  show "(1::int) \<noteq> 0" by simp
qed

section \<open>\<open>remove\<close> and \<open>restore\<close>\<close>

text \<open>
  Claim C7, at a run where the backend removes the environment and reports exit code 0.
  \<open>remove\<close> tests the handle of the job, which is 14 here, and not its exit code: it
  goes on to the recursive deletion of the prefix, which the backend has already removed,
  and ends with the error of \<open>shutil.rmtree\<close>.
\<close>

theorem remove_deletes_after_backend_success:
  "remove demo_removing ''napari=0.4.1'' w0 =
     (Inl OSError,
      \<lparr>dirs = {}, sentinels = {(''napari'', ''0.4.1'')}, lock_file = Unlocked,
       log = [Job (Remove ''/envs/napari-0.4.1'') \<lparr>job_id = 14, exit_code = 0\<rparr>,
              Print ''removing /envs/napari-0.4.1'',
              Rmtree ''/envs/napari-0.4.1'']\<rparr>)"
  by (simp add: remove_def seq_def lift_def returns_def emit_def unpack2_def demo_removing_def
      demo_def demo_parse_def prefix_for_def installer_remove_def installer_run_def rmtree_def
      w0_def Let_def)






section \<open>\<open>check_updates_clean_and_launch\<close>\<close>

lemma remove_prior_eq:
  "remove_prior n vs latest w =
     (Inr (), w\<lparr>sentinels := sentinels w - {n} \<times> {v \<in> set vs. v \<noteq> latest},
                log := log w @ map (RemoveSentinel n) (filter (\<lambda>v. v \<noteq> latest) vs)\<rparr>)"
proof (induction vs arbitrary: w)
  case Nil
  show ?case by simp
next
  case (Cons a vs)
  have s: "sentinels w - {(n, a)} - {n} \<times> {v \<in> set vs. v \<noteq> latest}
         = sentinels w - {n} \<times> {v. (v = a \<or> v \<in> set vs) \<and> v \<noteq> latest}" if "a \<noteq> latest"
    using that by blast
  have s': "{v \<in> set vs. v \<noteq> latest} = {v. (v = a \<or> v \<in> set vs) \<and> v \<noteq> latest}" if "a = latest"
    using that by blast
  show ?case
  proof (cases "a = latest")
    case True
    then show ?thesis by (simp add: Cons.IH s')
  next
    case False
    then show ?thesis by (simp add: Cons.IH remove_sentinel_file_def s)
  qed
qed

lemma remove_each_frame:
  "\<exists>evs. log (snd (remove_each h ps failed w)) = log w @ evs
     \<and> (\<forall>n v. RemoveSentinel n v \<notin> set evs)
     \<and> sentinels (snd (remove_each h ps failed w)) = sentinels w"
proof (induction ps arbitrary: failed w)
  case Nil
  show ?case by simp
next
  case (Cons p ps)
  let ?j = "fst (backend h (log w) (Remove p) (dirs w))"
  let ?w = "w\<lparr>dirs := snd (backend h (log w) (Remove p) (dirs w)),
               log := log w @ [Job (Remove p) ?j]\<rparr>"
  let ?f = "if exit_code ?j \<noteq> 0 then failed @ [p] else failed"
  have step: "remove_each h (p # ps) failed w = remove_each h ps ?f ?w"
    by (simp add: installer_remove_def installer_run_eq)
  obtain evs where a: "log (snd (remove_each h ps ?f ?w)) = log ?w @ evs"
    and b: "\<forall>n v. RemoveSentinel n v \<notin> set evs"
    and c: "sentinels (snd (remove_each h ps ?f ?w)) = sentinels ?w"
    using Cons.IH [of ?f ?w] by (elim exE conjE)
  have "log (snd (remove_each h (p # ps) failed w)) = log w @ (Job (Remove p) ?j # evs)"
    unfolding step a by simp
  moreover have "\<forall>n v. RemoveSentinel n v \<notin> set (Job (Remove p) ?j # evs)"
    using b by simp
  moreover have "sentinels (snd (remove_each h (p # ps) failed w)) = sentinels w"
    unfolding step c by simp
  ultimately show ?case by blast
qed

lemma clean_all_frame:
  "\<exists>evs. log (snd (clean_all h package w)) = log w @ evs
     \<and> (\<forall>n v. RemoveSentinel n v \<notin> set evs)
     \<and> sentinels (snd (clean_all h package w)) = sentinels w"
proof (cases "unpack2 (parse_conda_version_spec h package)")
  case (Inl e)
  then have "clean_all h package w = (Inl e, w)"
    by (simp add: clean_all_def seq_def lift_def)
  then show ?thesis by simp
next
  case (Inr nv)
  obtain n x where nv: "nv = (n, x)" by (cases nv)
  let ?b = "get_broken_envs h n (dirs w) (sentinels w)"
  have eq: "snd (clean_all h package w) = snd (remove_each h ?b [] w)"
    by (cases "remove_each h ?b [] w"; cases "fst (remove_each h ?b [] w)")
       (simp_all add: clean_all_def seq_def lift_def reads_def returns_def Inr nv)
  show ?thesis
    unfolding eq by (rule remove_each_frame)
qed

lemma clean_and_launch_cases:
  "(events_of (check_updates_clean_and_launch h package dev channel) w = []
      \<and> sentinels (snd (check_updates_clean_and_launch h package dev channel w)) = sentinels w)
   \<or> (\<exists>n x r evs.
        parse_conda_version_spec h package = [n, x]
      \<and> check_updates h n dev channel w = Inr r \<and> installed r
      \<and> events_of (check_updates_clean_and_launch h package dev channel) w =
          map (RemoveSentinel n) (filter (\<lambda>v. v \<noteq> latest_version r) (found_versions r)) @ evs
      \<and> (\<forall>n v. RemoveSentinel n v \<notin> set evs)
      \<and> sentinels (snd (check_updates_clean_and_launch h package dev channel w)) =
          sentinels w - {n} \<times> {v \<in> set (found_versions r). v \<noteq> latest_version r})"
proof (cases "unpack2 (parse_conda_version_spec h package)")
  case (Inl e)
  then have "check_updates_clean_and_launch h package dev channel w = (Inl e, w)"
    by (simp add: check_updates_clean_and_launch_def seq_def lift_def)
  then show ?thesis by (simp add: events_of_def)
next
  case (Inr nv)
  obtain n x where nv: "nv = (n, x)" by (cases nv)
  from Inr nv have spec: "parse_conda_version_spec h package = [n, x]"
    by (auto simp: unpack2_def split: list.splits)
  show ?thesis
  proof (cases "check_updates h n dev channel w")
    case (Inl e)
    then have "check_updates_clean_and_launch h package dev channel w = (Inl e, w)"
      by (simp add: check_updates_clean_and_launch_def seq_def lift_def reads_def Inr nv)
    then show ?thesis by (simp add: events_of_def)
  next
    case r: (Inr r)
    show ?thesis
    proof (cases "installed r")
      case False
      then have "check_updates_clean_and_launch h package dev channel w = (Inr (), w)"
        by (simp add: check_updates_clean_and_launch_def seq_def lift_def reads_def returns_def
            Inr nv r)
      then show ?thesis by (simp add: events_of_def)
    next
      case True
      let ?w = "w\<lparr>sentinels := sentinels w - {n} \<times> {v \<in> set (found_versions r). v \<noteq> latest_version r},
                   log := log w @ map (RemoveSentinel n)
                            (filter (\<lambda>v. v \<noteq> latest_version r) (found_versions r))\<rparr>"
      have run: "check_updates_clean_and_launch h package dev channel w = clean_all h n ?w"
        by (simp add: check_updates_clean_and_launch_def seq_def lift_def reads_def Inr nv r
            True remove_prior_eq)
      obtain evs where a: "log (snd (clean_all h n ?w)) = log ?w @ evs"
        and b: "\<forall>n v. RemoveSentinel n v \<notin> set evs"
        and c: "sentinels (snd (clean_all h n ?w)) = sentinels ?w"
        using clean_all_frame [of h n ?w] by (elim exE conjE)
      have ev: "events_of (check_updates_clean_and_launch h package dev channel) w =
          map (RemoveSentinel n) (filter (\<lambda>v. v \<noteq> latest_version r) (found_versions r)) @ evs"
        unfolding events_of_def run a by simp
      have se: "sentinels (snd (check_updates_clean_and_launch h package dev channel w)) =
          sentinels w - {n} \<times> {v \<in> set (found_versions r). v \<noteq> latest_version r}"
        unfolding run c by simp
      show ?thesis
        using spec r True ev b se by blast
    qed
  qed
qed

lemma demo_installed_check_updates:
  "check_updates demo_installed ''napari'' False c w =
     Inr \<lparr>available_versions = [''0.4.1'', ''0.4.2''],
          current_version = [],
          latest_version = ''0.4.2'',
          previous_version = [],
          found_versions = [''0.4.1'', ''0.4.2''],
          res_update = True,
          installed = True,
          status = []\<rparr>"
  by (simp add: check_updates_def and_then_def unpack3_def demo_installed_def demo_def
      demo_parse_def demo_parse_version_def versions_of_def latest_of_def previous_of_def
      getitem_def Let_def)

lemma demo_installed_clean_and_launch:
  "check_updates_clean_and_launch demo_installed ''napari=0.4.1'' False ''conda-forge'' w_both =
     (Inl ValueError,
      \<lparr>dirs = {''/envs/napari-0.4.1'', ''/envs/napari-0.4.2''},
       sentinels = {(''napari'', ''0.4.2'')},
       lock_file = Unlocked,
       log = [RemoveSentinel ''napari'' ''0.4.1'']\<rparr>)"
proof -
  have u: "unpack2 (parse_conda_version_spec demo_installed ''napari=0.4.1'')
      = Inr (''napari'', ''0.4.1'')"
    by (simp add: unpack2_def demo_installed_def demo_def demo_parse_def)
  have c: "clean_all demo_installed ''napari'' w = (Inl ValueError, w)" for w
    by (simp add: clean_all_def seq_def lift_def unpack2_def demo_installed_def demo_def
        demo_parse_def)
  have s: "{(''napari'', ''0.4.1''), (''napari'', ''0.4.2'')}
             - {''napari''} \<times> {v. (v = ''0.4.1'' \<or> v = ''0.4.2'') \<and> v \<noteq> ''0.4.2''}
         = {(''napari'', ''0.4.2'')}"
    by auto
  show ?thesis
    unfolding check_updates_clean_and_launch_def u
    by (simp add: seq_def lift_def reads_def demo_installed_check_updates remove_prior_eq c
        w_both_def s)
qed

text \<open>
  Claim C4. In every run of \<open>check_updates_clean_and_launch\<close>, a sentinel file is removed
  only for a version that \<open>check_updates\<close> found installed and that differs from the latest
  version, and only when the latest version is reported as installed; the sentinel of the
  latest version is still there at the end of the run whenever it was there at its start.
\<close>

theorem clean_and_launch_keeps_latest_sentinel:
  "(\<forall>n v. RemoveSentinel n v
            \<in> set (events_of (check_updates_clean_and_launch h package dev channel) w) \<longrightarrow>
      (\<exists>x r. parse_conda_version_spec h package = [n, x]
          \<and> check_updates h n dev channel w = Inr r \<and> installed r
          \<and> v \<in> set (found_versions r) \<and> v \<noteq> latest_version r))
   \<and> (\<forall>n x r. parse_conda_version_spec h package = [n, x] \<longrightarrow>
         check_updates h n dev channel w = Inr r \<longrightarrow>
         (n, latest_version r) \<in> sentinels w \<longrightarrow>
         (n, latest_version r)
            \<in> sentinels (snd (check_updates_clean_and_launch h package dev channel w)))"
proof -
  let ?C = "check_updates_clean_and_launch h package dev channel"
  consider (idle) "events_of ?C w = []" "sentinels (snd (?C w)) = sentinels w"
    | (clean) n x r evs where
        "parse_conda_version_spec h package = [n, x]"
        "check_updates h n dev channel w = Inr r" "installed r"
        "events_of ?C w =
           map (RemoveSentinel n) (filter (\<lambda>v. v \<noteq> latest_version r) (found_versions r)) @ evs"
        "\<forall>n v. RemoveSentinel n v \<notin> set evs"
        "sentinels (snd (?C w)) =
           sentinels w - {n} \<times> {v \<in> set (found_versions r). v \<noteq> latest_version r}"
    using clean_and_launch_cases [of h package dev channel w] by blast
  then show ?thesis
  proof cases
    case idle
    show ?thesis unfolding idle by simp
  next
    case clean
    have mem: "RemoveSentinel n' v \<in> set (events_of ?C w)
        \<longleftrightarrow> n' = n \<and> v \<in> set (found_versions r) \<and> v \<noteq> latest_version r" for n' v
      unfolding clean(4) using clean(5) by auto
    show ?thesis
      unfolding mem clean(6) using clean(1) clean(2) clean(3) by auto
  qed
qed

theorem clean_and_launch_keeps_latest_sentinel_witness:
  "RemoveSentinel ''napari'' ''0.4.1''
     \<in> set (events_of (check_updates_clean_and_launch demo_installed ''napari=0.4.1'' False
                         ''conda-forge'') w_both)
   \<and> (\<exists>x r. parse_conda_version_spec demo_installed ''napari=0.4.1'' = [''napari'', x]
          \<and> check_updates demo_installed ''napari'' False ''conda-forge'' w_both = Inr r
          \<and> installed r \<and> ''0.4.1'' \<in> set (found_versions r) \<and> ''0.4.1'' \<noteq> latest_version r)
   \<and> (''napari'', ''0.4.2'')
        \<in> sentinels (snd (check_updates_clean_and_launch demo_installed ''napari=0.4.1'' False
                            ''conda-forge'' w_both))"
proof -
  have mem: "RemoveSentinel ''napari'' ''0.4.1''
     \<in> set (events_of (check_updates_clean_and_launch demo_installed ''napari=0.4.1'' False
                         ''conda-forge'') w_both)"
    unfolding events_of_def demo_installed_clean_and_launch by (simp add: w_both_def)
  have spec: "parse_conda_version_spec demo_installed ''napari=0.4.1'' = [''napari'', ''0.4.1'']"
    by (simp add: demo_installed_def demo_def demo_parse_def)
  have cu: "check_updates demo_installed ''napari'' False ''conda-forge'' w_both =
     Inr \<lparr>available_versions = [''0.4.1'', ''0.4.2''], current_version = [],
          latest_version = ''0.4.2'', previous_version = [],
          found_versions = [''0.4.1'', ''0.4.2''], res_update = True, installed = True,
          status = []\<rparr>"
    by (rule demo_installed_check_updates)
  have present: "(''napari'', ''0.4.2'') \<in> sentinels w_both"
    by (simp add: w_both_def)
  note inst = clean_and_launch_keeps_latest_sentinel
      [of demo_installed "''napari=0.4.1''" False "''conda-forge''" w_both]
  from inst mem have a: "\<exists>x r. parse_conda_version_spec demo_installed ''napari=0.4.1'' = [''napari'', x]
          \<and> check_updates demo_installed ''napari'' False ''conda-forge'' w_both = Inr r
          \<and> installed r \<and> ''0.4.1'' \<in> set (found_versions r) \<and> ''0.4.1'' \<noteq> latest_version r"
    by blast
  from inst spec cu present have b: "(''napari'', ''0.4.2'')
        \<in> sentinels (snd (check_updates_clean_and_launch demo_installed ''napari=0.4.1'' False
                            ''conda-forge'' w_both))"
    by (metis check_result.select_convs(3))
  from mem a b show ?thesis by blast
qed

section \<open>The command line\<close>

lemma parse_args_check:
  assumes "cl_command cl = ''check-updates''" "cl_current_version cl = None" "cl_plugins cl = None"
  shows "parse_args cl =
     Inr [(''command'', Str ''check-updates''), (''package'', Str (cl_package cl)),
          (''channel'', Str (channel_of cl)), (''dev'', Flag (cl_dev cl))]"
  using assms by (simp add: parse_args_def subparsers_def create_parser_def channel_of_def)

lemma execute_check:
  "execute h [(''command'', Str ''check-updates''), (''package'', Str p),
              (''channel'', Str c), (''dev'', Flag d)] lc w =
     (case check_updates h p d c w of
        Inl e \<Rightarrow> (Inl e, w)
      | Inr r \<Rightarrow> (Inr (), w\<lparr>log := log w @ [StdoutJson r]\<rparr>))"
  by (simp add: execute_def seq_def lift_def reads_def emit_def getattr_def and_then_def
      as_str_def as_flag_def split: sum.splits)

lemma handle_check:
  "handle_excecute h [(''command'', Str ''check-updates''), (''package'', Str p),
              (''channel'', Str c), (''dev'', Flag d)] lc w =
     (case check_updates h p d c w of
        Inl e \<Rightarrow> (Inl TypeError, w)
      | Inr r \<Rightarrow> (Inr (), w\<lparr>log := log w @ [StdoutJson r]\<rparr>))"
  unfolding handle_excecute_def execute_check by (simp split: sum.splits)

lemma main_check:
  assumes cmd: "cl_command cl = ''check-updates''"
    and nv: "cl_current_version cl = None" and np: "cl_plugins cl = None"
  shows "main h pid cl w =
     (Some (case check_updates h (cl_package cl) (cl_dev cl) (channel_of cl) w of
              Inl e \<Rightarrow> Inl TypeError | Inr r \<Rightarrow> Inr ()),
      w\<lparr>lock_file := (case lock_file w of Unlocked \<Rightarrow> Held pid | Held p \<Rightarrow> Held p
                        | Corrupted k \<Rightarrow> if k then Unlocked else Corrupted k),
        log := log w @ TryLock # (if lock_file w = Corrupted True then [ClearLock] else [])
                 @ (case check_updates h (cl_package cl) (cl_dev cl) (channel_of cl) w of
                      Inl e \<Rightarrow> [] | Inr r \<Rightarrow> [StdoutJson r])\<rparr>)"
proof -
  have cu: "check_updates h (cl_package cl) (cl_dev cl) (channel_of cl) (w\<lparr>lock_file := l, log := g\<rparr>)
      = check_updates h (cl_package cl) (cl_dev cl) (channel_of cl) w" for l g
    by (rule check_updates_reads) simp_all
  have cu': "check_updates h (cl_package cl) (cl_dev cl) (channel_of cl) (w\<lparr>log := g\<rparr>)
      = check_updates h (cl_package cl) (cl_dev cl) (channel_of cl) w" for g
    by (rule check_updates_reads) simp_all
  show ?thesis
  proof (cases "lock_file w")
    case Unlocked
    then show ?thesis
      unfolding main_def parse_args_check [OF cmd nv np]
      by (simp add: lock_def handle_check cu split: sum.splits)
  next
    case (Held p)
    then show ?thesis
      unfolding main_def parse_args_check [OF cmd nv np]
      by (simp add: lock_def handle_check cu' split: sum.splits)
  next
    case (Corrupted k)
    then show ?thesis
      unfolding main_def parse_args_check [OF cmd nv np]
      by (cases k) (simp_all add: lock_def clear_lock_file_def handle_check cu cu' split: sum.splits)
  qed
qed

lemma execute_check_branch:
  assumes "and_then (getattr args ''command'') as_str = Inr ''check-updates''"
  shows "(\<exists>e. execute h args lc w = (Inl e, w))
     \<or> (\<exists>r. execute h args lc w = (Inr (), w\<lparr>log := log w @ [StdoutJson r]\<rparr>))"
  unfolding execute_def
  by (auto simp add: assms seq_def lift_def reads_def emit_def split: sum.splits)

lemma execute_none:
  "lock_file (snd (execute h args None w)) = lock_file w
   \<and> dirs (snd (execute h args None w)) = dirs w
   \<and> sentinels (snd (execute h args None w)) = sentinels w
   \<and> (\<exists>evs. log (snd (execute h args None w)) = log w @ evs \<and> TryLock \<notin> set evs)"
proof (cases "and_then (getattr args ''command'') as_str")
  case (Inl e)
  then have "execute h args None w = (Inl e, w)"
    by (simp add: execute_def seq_def lift_def)
  then show ?thesis by simp
next
  case (Inr command)
  show ?thesis
  proof (cases "command = ''check-updates''")
    case False
    then have "execute h args None w = (Inr (), w\<lparr>log := log w @ [Print ''ALREADY RUNNING!'']\<rparr>)"
      by (simp add: execute_def seq_def lift_def emit_def Inr)
    then show ?thesis by simp
  next
    case True
    from execute_check_branch [of args h None w] Inr True
    consider e where "execute h args None w = (Inl e, w)"
      | r where "execute h args None w = (Inr (), w\<lparr>log := log w @ [StdoutJson r]\<rparr>)"
      by blast
    then show ?thesis
      by cases simp_all
  qed
qed

lemma handle_none:
  "lock_file (snd (handle_excecute h args None w)) = lock_file w
   \<and> dirs (snd (handle_excecute h args None w)) = dirs w
   \<and> sentinels (snd (handle_excecute h args None w)) = sentinels w
   \<and> (\<exists>evs. log (snd (handle_excecute h args None w)) = log w @ evs \<and> TryLock \<notin> set evs)"
proof -
  have "snd (handle_excecute h args None w) = snd (execute h args None w)"
    unfolding handle_excecute_def by (simp split: prod.splits sum.splits)
  then show ?thesis
    using execute_none [of h args w] by simp
qed

text \<open>
  Claim C8, at an invocation of \<open>check-updates\<close> while no process holds the lock: \<open>main\<close>
  calls \<open>lock.lock()\<close> before it dispatches, so the lock is free before the invocation and
  held by the invoking process (here process 7) after it.
\<close>

theorem check_updates_acquires_lock:
  "lock_file w0 = Unlocked
   \<and> lock_file (snd (main demo 7 cl_check w0)) = Held 7
   \<and> main_events demo 7 cl_check w0 =
       [TryLock,
        StdoutJson \<lparr>available_versions = [''0.4.1'', ''0.4.2''], current_version = ''0.4.1'',
                    latest_version = ''0.4.2'', previous_version = ''0.4.2'',
                    found_versions = [''0.4.1''], res_update = True, installed = False,
                    status = []\<rparr>]"
proof -
  have m: "main demo 7 cl_check w0 =
      (Some (Inr ()),
       w0\<lparr>lock_file := Held 7,
          log := log w0 @ [TryLock,
            StdoutJson \<lparr>available_versions = [''0.4.1'', ''0.4.2''], current_version = ''0.4.1'',
                    latest_version = ''0.4.2'', previous_version = ''0.4.2'',
                    found_versions = [''0.4.1''], res_update = True, installed = False,
                    status = []\<rparr>]\<rparr>)"
    by (subst main_check) (simp_all add: cl_check_def demo_check_updates w0_def)
  show ?thesis
    unfolding main_events_def m by (simp add: w0_def)
qed

text \<open>
  Claim C8, amended. Every invocation of the command line with the \<open>check-updates\<close> command
  tries to take the process lock, as every other command does, and does not look at the
  outcome: the result of \<open>check_updates\<close> is written whether or not another process holds
  the lock, \<open>check_updates\<close> itself does not read the lock, and when another process holds
  the lock the lock is in the same state after the invocation as before it.
\<close>

theorem check_updates_regardless_of_lock:
  assumes "cl_command cl = ''check-updates''"
    and "cl_current_version cl = None" and "cl_plugins cl = None"
  shows "TryLock \<in> set (main_events h pid cl w)
     \<and> (\<forall>p. lock_file w = Held p \<longrightarrow> lock_file (snd (main h pid cl w)) = Held p)
     \<and> (\<forall>r. check_updates h (cl_package cl) (cl_dev cl) (channel_of cl) w = Inr r \<longrightarrow>
            fst (main h pid cl w) = Some (Inr ())
            \<and> StdoutJson r \<in> set (main_events h pid cl w))
     \<and> (\<forall>l. check_updates h (cl_package cl) (cl_dev cl) (channel_of cl) (w\<lparr>lock_file := l\<rparr>)
            = check_updates h (cl_package cl) (cl_dev cl) (channel_of cl) w)"
proof -
  have cu: "check_updates h (cl_package cl) (cl_dev cl) (channel_of cl) (w\<lparr>lock_file := l\<rparr>)
      = check_updates h (cl_package cl) (cl_dev cl) (channel_of cl) w" for l
    by (rule check_updates_reads) simp_all
  show ?thesis
    unfolding main_events_def main_check [OF assms]
    by (simp add: cu)
qed

theorem check_updates_regardless_of_lock_witness:
  "lock_file (w0\<lparr>lock_file := Held 3\<rparr>) = Held 3
   \<and> lock_file (snd (main demo 7 cl_check (w0\<lparr>lock_file := Held 3\<rparr>))) = Held 3
   \<and> fst (main demo 7 cl_check (w0\<lparr>lock_file := Held 3\<rparr>)) = Some (Inr ())
   \<and> TryLock \<in> set (main_events demo 7 cl_check (w0\<lparr>lock_file := Held 3\<rparr>))
   \<and> StdoutJson \<lparr>available_versions = [''0.4.1'', ''0.4.2''], current_version = ''0.4.1'',
        latest_version = ''0.4.2'', previous_version = ''0.4.2'',
        found_versions = [''0.4.1''], res_update = True, installed = False, status = []\<rparr>
       \<in> set (main_events demo 7 cl_check (w0\<lparr>lock_file := Held 3\<rparr>))"
proof -
  have c: "cl_command cl_check = ''check-updates''" "cl_current_version cl_check = None"
    "cl_plugins cl_check = None" "cl_package cl_check = ''napari=0.4.1=py''"
    "cl_dev cl_check = False"
    by (simp_all add: cl_check_def)
  have held: "lock_file (w0\<lparr>lock_file := Held 3\<rparr>) = Held 3"
    by simp
  have cu: "check_updates demo (cl_package cl_check) (cl_dev cl_check) (channel_of cl_check)
              (w0\<lparr>lock_file := Held 3\<rparr>) =
     Inr \<lparr>available_versions = [''0.4.1'', ''0.4.2''], current_version = ''0.4.1'',
        latest_version = ''0.4.2'', previous_version = ''0.4.2'',
        found_versions = [''0.4.1''], res_update = True, installed = False, status = []\<rparr>"
    unfolding c by (rule demo_check_updates)
  from check_updates_regardless_of_lock [OF c(1) c(2) c(3), of demo 7 "w0\<lparr>lock_file := Held 3\<rparr>"]
    held cu
  show ?thesis by blast
qed

lemma main_corrupted:
  assumes "lock_file w = Corrupted k" and "parse_args cl = Inr args"
  shows "main h pid cl w =
     (Some (fst (handle_excecute h args None
               (w\<lparr>lock_file := (if k then Unlocked else Corrupted k),
                  log := log w @ TryLock # (if k then [ClearLock] else [])\<rparr>))),
      snd (handle_excecute h args None
               (w\<lparr>lock_file := (if k then Unlocked else Corrupted k),
                  log := log w @ TryLock # (if k then [ClearLock] else [])\<rparr>)))"
proof (cases k)
  case True
  have "w\<lparr>log := log w @ [TryLock], lock_file := Unlocked, log := log w @ [TryLock, ClearLock]\<rparr>
      = w\<lparr>lock_file := Unlocked, log := log w @ [TryLock, ClearLock]\<rparr>"
    by simp
  then show ?thesis
    using assms True
    by (simp add: main_def lock_def clear_lock_file_def split: prod.splits)
next
  case False
  have e: "w\<lparr>lock_file := (if k then Unlocked else Corrupted k),
             log := log w @ TryLock # (if k then [ClearLock] else [])\<rparr>
      = w\<lparr>log := log w @ [TryLock]\<rparr>"
    using assms(1) False by simp
  show ?thesis
    unfolding e using assms False
    by (simp add: main_def lock_def clear_lock_file_def split: prod.splits)
qed

text \<open>
  Claim C9, at an invocation of \<open>restore\<close> while the lock artifact is corrupted and can be
  cleared: \<open>main\<close> tries the lock once, clears the artifact and does not try again; the
  dispatcher runs with no lock outcome, prints \<open>ALREADY RUNNING!\<close> and skips the
  restore, so no installer job runs.
\<close>

theorem corrupted_lock_skips_restore:
  "main demo 7 cl_restore
     \<lparr>dirs = {''/envs/napari-0.4.1''}, sentinels = {(''napari'', ''0.4.1'')},
      lock_file = Corrupted True, log = []\<rparr> =
   (Some (Inr ()),
     \<lparr>dirs = {''/envs/napari-0.4.1''}, sentinels = {(''napari'', ''0.4.1'')},
      lock_file = Unlocked,
      log = [TryLock, ClearLock, Print ''ALREADY RUNNING!'']\<rparr>)"
  by (simp add: main_def parse_args_def subparsers_def create_parser_def cl_restore_def
      lock_def clear_lock_file_def handle_excecute_def execute_def seq_def lift_def emit_def
      getattr_def and_then_def as_str_def)

text \<open>
  Claim C9, amended. When acquiring the process lock raises a low-level error (a corrupted
  lock artifact), \<open>main\<close> clears the artifact when it can and does not try the lock
  again: the lock is tried exactly once in the invocation. The dispatcher then runs once,
  with no lock outcome and without taking the lock, and the invocation ends: it does not
  wait for the lock.
\<close>

theorem corrupted_lock_cleared_without_retry:
  assumes "lock_file w = Corrupted k" and "parse_args cl = Inr args"
  shows "\<exists>r evs.
       main h pid cl w = (Some r, snd (main h pid cl w))
     \<and> main_events h pid cl w = TryLock # (if k then [ClearLock] else []) @ evs
     \<and> TryLock \<notin> set evs
     \<and> evs = events_of (handle_excecute h args None)
               (w\<lparr>lock_file := (if k then Unlocked else Corrupted k),
                  log := log w @ TryLock # (if k then [ClearLock] else [])\<rparr>)
     \<and> lock_file (snd (main h pid cl w)) = (if k then Unlocked else Corrupted k)"
proof -
  let ?w = "w\<lparr>lock_file := (if k then Unlocked else Corrupted k),
               log := log w @ TryLock # (if k then [ClearLock] else [])\<rparr>"
  have m: "main h pid cl w = (Some (fst (handle_excecute h args None ?w)),
                              snd (handle_excecute h args None ?w))"
    by (rule main_corrupted [OF assms])
  obtain evs where lg: "log (snd (handle_excecute h args None ?w)) = log ?w @ evs"
    and nt: "TryLock \<notin> set evs"
    using handle_none [of h args ?w] by (elim exE conjE)
  have lf: "lock_file (snd (handle_excecute h args None ?w)) = lock_file ?w"
    using handle_none [of h args ?w] by (elim conjE)
  have ev: "events_of (handle_excecute h args None) ?w = evs"
    unfolding events_of_def lg by simp
  have me: "main_events h pid cl w = TryLock # (if k then [ClearLock] else []) @ evs"
    unfolding main_events_def m by (simp add: lg)
  have l: "lock_file (snd (main h pid cl w)) = (if k then Unlocked else Corrupted k)"
    unfolding m by (simp add: lf)
  have r: "main h pid cl w = (Some (fst (handle_excecute h args None ?w)), snd (main h pid cl w))"
    unfolding m by simp
  show ?thesis
    using r me nt ev l by blast
qed

theorem corrupted_lock_cleared_without_retry_witness:
  "\<exists>r evs.
       main demo 7 cl_restore (w0\<lparr>lock_file := Corrupted True\<rparr>)
         = (Some r, snd (main demo 7 cl_restore (w0\<lparr>lock_file := Corrupted True\<rparr>)))
     \<and> main_events demo 7 cl_restore (w0\<lparr>lock_file := Corrupted True\<rparr>)
         = TryLock # (if True then [ClearLock] else []) @ evs
     \<and> TryLock \<notin> set evs
     \<and> evs = events_of (handle_excecute demo
                 [(''command'', Str ''restore''), (''package'', Str ''napari=0.4.1''),
                  (''channel'', Str ''conda-forge'')] None)
               (w0\<lparr>lock_file := Corrupted True,
                   lock_file := (if True then Unlocked else Corrupted True),
                   log := log (w0\<lparr>lock_file := Corrupted True\<rparr>)
                            @ TryLock # (if True then [ClearLock] else [])\<rparr>)
     \<and> lock_file (snd (main demo 7 cl_restore (w0\<lparr>lock_file := Corrupted True\<rparr>)))
         = (if True then Unlocked else Corrupted True)"
proof (rule corrupted_lock_cleared_without_retry)
  show "lock_file (w0\<lparr>lock_file := Corrupted True\<rparr>) = Corrupted True"
    by simp
  show "parse_args cl_restore =
      Inr [(''command'', Str ''restore''), (''package'', Str ''napari=0.4.1''),
           (''channel'', Str ''conda-forge'')]"
    by (simp add: parse_args_def subparsers_def create_parser_def cl_restore_def
        DEFAULT_CHANNEL_def)
qed

lemma parse_args_update:
  assumes "cl_command cl = ''update''"
  shows "parse_args cl =
     (if cl_current_version cl \<noteq> None then Inl SystemExit
      else Inr [(''command'', Str ''update''), (''package'', Str (cl_package cl)),
                (''channel'', Str (channel_of cl)),
                (''plugins'', Strs (case cl_plugins cl of None \<Rightarrow> [] | Some ps \<Rightarrow> ps)),
                (''dev'', Flag (cl_dev cl))])"
  using assms by (simp add: parse_args_def subparsers_def create_parser_def channel_of_def)

lemma handle_update:
  "handle_excecute h [(''command'', Str ''update''), (''package'', Str p),
                      (''channel'', Str c), (''plugins'', Strs ps), (''dev'', Flag d)] lc w =
     (if lc = Some True
      then (Inl TypeError, w\<lparr>log := log w @ [Print ''RUNNING'']\<rparr>)
      else (Inr (), w\<lparr>log := log w @ [Print ''ALREADY RUNNING!'']\<rparr>))"
  by (simp add: handle_excecute_def execute_def seq_def lift_def emit_def getattr_def
      and_then_def as_str_def)

lemma main_update:
  assumes cmd: "cl_command cl = ''update''" and nv: "cl_current_version cl = None"
  shows "main h pid cl w =
     (case lock_file w of
        Unlocked \<Rightarrow>
          (Some (Inl TypeError),
           w\<lparr>lock_file := Held pid, log := log w @ [TryLock, Print ''RUNNING'']\<rparr>)
      | Held p \<Rightarrow>
          (Some (Inr ()), w\<lparr>log := log w @ [TryLock, Print ''ALREADY RUNNING!'']\<rparr>)
      | Corrupted k \<Rightarrow>
          (Some (Inr ()),
           w\<lparr>lock_file := (if k then Unlocked else Corrupted k),
             log := log w @ TryLock # (if k then [ClearLock] else [])
                      @ [Print ''ALREADY RUNNING!'']\<rparr>))"
proof (cases "lock_file w")
  case Unlocked
  then show ?thesis
    unfolding main_def parse_args_update [OF cmd]
    by (simp add: nv lock_def handle_update)
next
  case (Held p)
  then show ?thesis
    unfolding main_def parse_args_update [OF cmd]
    by (simp add: nv lock_def handle_update)
next
  case (Corrupted k)
  then show ?thesis
    unfolding main_def parse_args_update [OF cmd]
    by (cases k) (simp_all add: nv lock_def clear_lock_file_def handle_update)
qed

lemma main_update_rejected:
  assumes cmd: "cl_command cl = ''update''" and nv: "cl_current_version cl \<noteq> None"
  shows "main h pid cl w = (None, w)"
  unfolding main_def parse_args_update [OF cmd] using nv by simp

text \<open>
  Claim C10. No invocation of the command line with the \<open>update\<close> command runs a create
  or an install job of the installer or writes a sentinel file, and every one leaves the
  environments and the sentinel files as they were. The namespace of the \<open>update\<close>
  subparser has no attribute \<open>stable\<close> (and none named \<open>current_version\<close>, which the branch
  reads first), so when the lock was acquired the branch raises before it calls anything,
  and the invocation ends with that error.
\<close>

theorem cli_update_installs_nothing:
  assumes "cl_command cl = ''update''"
  shows "(\<forall>c j. Job c j \<notin> set (main_events h pid cl w))
     \<and> (\<forall>n v. CreateSentinel n v \<notin> set (main_events h pid cl w))
     \<and> dirs (snd (main h pid cl w)) = dirs w
     \<and> sentinels (snd (main h pid cl w)) = sentinels w
     \<and> (\<forall>args. parse_args cl = Inr args \<longrightarrow>
           getattr args ''stable'' = Inl AttributeError
         \<and> getattr args ''current_version'' = Inl AttributeError
         \<and> (lock_file w = Unlocked \<longrightarrow> fst (main h pid cl w) = Some (Inl TypeError)))"
proof (cases "cl_current_version cl = None")
  case False
  have m: "main h pid cl w = (None, w)"
    by (rule main_update_rejected [OF assms False])
  have p: "parse_args cl = Inl SystemExit"
    unfolding parse_args_update [OF assms] using False by simp
  show ?thesis
    unfolding main_events_def m p by simp
next
  case True
  have p: "parse_args cl =
      Inr [(''command'', Str ''update''), (''package'', Str (cl_package cl)),
           (''channel'', Str (channel_of cl)),
           (''plugins'', Strs (case cl_plugins cl of None \<Rightarrow> [] | Some ps \<Rightarrow> ps)),
           (''dev'', Flag (cl_dev cl))]"
    unfolding parse_args_update [OF assms] using True by simp
  show ?thesis
    unfolding main_events_def main_update [OF assms True] p
    by (cases "lock_file w") (simp_all add: getattr_def)
qed

theorem cli_update_installs_nothing_witness:
  "(\<forall>c j. Job c j \<notin> set (main_events demo 7 cl_update w0))
     \<and> (\<forall>n v. CreateSentinel n v \<notin> set (main_events demo 7 cl_update w0))
     \<and> dirs (snd (main demo 7 cl_update w0)) = dirs w0
     \<and> sentinels (snd (main demo 7 cl_update w0)) = sentinels w0
     \<and> getattr [(''command'', Str ''update''), (''package'', Str ''napari=0.4.1=py''),
                 (''channel'', Str ''conda-forge''), (''plugins'', Strs []),
                 (''dev'', Flag False)] ''stable'' = Inl AttributeError
     \<and> fst (main demo 7 cl_update w0) = Some (Inl TypeError)"
proof -
  have c: "cl_command cl_update = ''update''"
    by (simp add: cl_update_def)
  have p: "parse_args cl_update =
      Inr [(''command'', Str ''update''), (''package'', Str ''napari=0.4.1=py''),
           (''channel'', Str ''conda-forge''), (''plugins'', Strs []), (''dev'', Flag False)]"
    by (simp add: parse_args_def subparsers_def create_parser_def cl_update_def
        DEFAULT_CHANNEL_def)
  have l: "lock_file w0 = Unlocked"
    by (simp add: w0_def)
  from cli_update_installs_nothing [OF c, of demo 7 w0] p l
  show ?thesis by blast
qed
end
